theory Spec2Isabelle
  imports Main "HOL-Library.Sublist"
begin

section \<open>Data model: the Kubernetes manifests declared by \<open>legend-platform.ts\<close>\<close>

text \<open>
  The constructs of \<open>lib/legend-platform.ts\<close> only declare objects: every call of
  \<open>cluster.addManifest\<close> adds one named manifest node to the cluster construct, and every
  call of \<open>node.addDependency\<close> declares "must exist before" edges. The object literals
  of the source become records, field by field.
\<close>

text \<open>An entry \<open>{ path, objectAlias }\<close> of the \<open>jmesPath\<close> array.\<close>

record jmes_entry =
  jm_path :: string
  jm_objectAlias :: string

text \<open>
  One element of the array handed to \<open>JSON.stringify\<close> for \<open>parameters.objects\<close>.
  The model keeps the array itself; the source stores its JSON rendering.
\<close>

record spc_object =
  so_objectName :: string
  so_objectType :: string
  so_jmesPath :: "jmes_entry list"

text \<open>An entry \<open>{ objectName, key }\<close> of \<open>secretObjects[].data\<close>.\<close>

record secret_datum =
  sd_objectName :: string
  sd_key :: string

record secret_object =
  sob_secretName :: string
  sob_type :: string
  sob_data :: "secret_datum list"

record spc_manifest =
  spc_apiVersion :: string
  spc_name :: string
  spc_namespace :: string
  spc_provider :: string
  spc_objects :: "spc_object list"
  spc_secretObjects :: "secret_object list"

text \<open>
  An element of a container's \<open>env\<close>: either \<open>{ name, value }\<close> or
  \<open>{ name, valueFrom: { secretKeyRef: { name, key } } }\<close>.
\<close>

datatype env_var =
  EnvValue string string
| EnvSecretKeyRef string string string

record csi_volume =
  vol_name :: string
  vol_driver :: string
  vol_readOnly :: bool
  vol_secretProviderClass :: string

record volume_mount =
  vm_name :: string
  vm_mountPath :: string
  vm_readOnly :: bool

record container =
  ct_name :: string
  ct_image :: string
  ct_imagePullPolicy :: string
  ct_ports :: "int list"
  ct_env :: "env_var list"
  ct_volumeMounts :: "volume_mount list"

record deployment_manifest =
  dp_apiVersion :: string
  dp_name :: string
  dp_namespace :: string
  dp_replicas :: int
  dp_matchLabels_app :: string
  dp_template_labels_app :: string
  dp_volumes :: "csi_volume list"
  dp_containers :: "container list"

record service_manifest =
  sv_apiVersion :: string
  sv_name :: string
  sv_namespace :: string
  sv_selector_app :: string
  sv_ports :: "(int \<times> int) list"
  sv_type :: string

text \<open>An element of \<open>http.paths\<close>: path, pathType, backend service name and port number.\<close>

record http_path =
  hp_path :: string
  hp_pathType :: string
  hp_service_name :: string
  hp_service_port :: int

record ingress_rule =
  ir_host :: string
  ir_paths :: "http_path list"

record ingress_manifest =
  ig_apiVersion :: string
  ig_name :: string
  ig_namespace :: string
  ig_annotations :: "(string \<times> string) list"
  ig_rules :: "ingress_rule list"

text \<open>
  \<open>np_ingress\<close> holds, for every element of \<open>spec.ingress\<close>, the \<open>cidr\<close> of each
  \<open>ipBlock\<close> of its \<open>from\<close> list. \<open>podSelector\<close> is the empty object.
\<close>

record networkpolicy_manifest =
  np_apiVersion :: string
  np_name :: string
  np_namespace :: string
  np_policyTypes :: "string list"
  np_ingress :: "string list list"

text \<open>
  The \<open>kind\<close> of a manifest is its constructor; \<open>metadata\<close> is flattened into the
  name and namespace fields.
\<close>

record namespace_manifest =
  nsm_apiVersion :: string
  nsm_name :: string

datatype manifest =
  Namespace namespace_manifest
| SecretProviderClass spc_manifest
| Deployment deployment_manifest
| Service service_manifest
| Ingress ingress_manifest
| NetworkPolicy networkpolicy_manifest

section \<open>The cluster construct as explicit state\<close>

text \<open>
  The cluster construct holds the manifest nodes added to it, in order, each under its
  construct id, and the declared dependency edges.
\<close>

record cluster =
  manifests :: "(string \<times> manifest) list"
  dependencies :: "(string \<times> string) list"

text \<open>
  Two things can throw while the graph is built: the constructor's own \<open>throw new Error\<close>,
  which carries a message, and the construct tree, which refuses a second child under
  an id the cluster already holds.
\<close>

datatype error =
  Error string
| ConstructExists string

text \<open>
  A step of the constructor either throws or returns a value, and leaves the cluster
  in some state either way. \<open>andThen\<close> runs the rest of the constructor after a step
  that returned, and stops at a step that threw, keeping the cluster as it was then.
\<close>

type_synonym 'a outcome = "(error + 'a) \<times> cluster"

definition andThen :: "'a outcome \<Rightarrow> ('a \<Rightarrow> cluster \<Rightarrow> 'b outcome) \<Rightarrow> 'b outcome" where
  "andThen r f = (case r of (Inl e, c) \<Rightarrow> (Inl e, c) | (Inr a, c) \<Rightarrow> f a c)"

text \<open>
  \<open>cluster.addManifest(id, m)\<close> throws when the cluster already holds a manifest under
  \<open>id\<close>, and leaves the cluster as it is; otherwise it appends the node \<open>(id, m)\<close> and
  returns a handle to it. The handle is the construct id.
  \<open>n.node.addDependency(d1, ..., dk)\<close> appends the edges \<open>(n, d1), ..., (n, dk)\<close>: the
  first component depends on the second.
\<close>

definition addManifest :: "string \<Rightarrow> manifest \<Rightarrow> cluster \<Rightarrow> string outcome" where
  "addManifest ident m c =
     (if ident \<in> set (map fst (manifests c)) then (Inl (ConstructExists ident), c)
      else (Inr ident, c\<lparr>manifests := manifests c @ [(ident, m)]\<rparr>))"

definition addDependency :: "string \<Rightarrow> string list \<Rightarrow> cluster \<Rightarrow> cluster" where
  "addDependency n ds c = c\<lparr>dependencies := dependencies c @ map (\<lambda>d. (n, d)) ds\<rparr>"

section \<open>createSecretProviderClass\<close>

text \<open>
  An optional string parameter is \<open>None\<close> when the argument is omitted. The source tests
  such a parameter by JavaScript truthiness: the empty string is falsy as well.
\<close>

fun truthy :: "string option \<Rightarrow> bool" where
  "truthy None = False"
| "truthy (Some s) = (s \<noteq> [])"

text \<open>The \<open>jmesPath\<close> array of \<open>createSecretProviderClass\<close>, after the optional push.\<close>

definition jmesPath_of ::
  "string \<Rightarrow> string option \<Rightarrow> string option \<Rightarrow> string option \<Rightarrow> jmes_entry list" where
  "jmesPath_of k8sSecretKey secretProperty alternateProperty alternateKey =
     (let jmesPath =
        (if truthy secretProperty
         then [\<lparr>jm_path = the secretProperty, jm_objectAlias = k8sSecretKey\<rparr>]
         else [\<lparr>jm_path = ''.'', jm_objectAlias = k8sSecretKey\<rparr>])
      in if truthy alternateProperty \<and> truthy alternateKey
         then jmesPath @ [\<lparr>jm_path = the alternateProperty, jm_objectAlias = the alternateKey\<rparr>]
         else jmesPath)"

definition spcDef ::
  "string \<Rightarrow> string \<Rightarrow> string \<Rightarrow> string \<Rightarrow> jmes_entry list \<Rightarrow> spc_manifest" where
  "spcDef idSuffix namespace secretArn k8sSecretName jmesPath =
     \<lparr>spc_apiVersion = ''secrets-store.csi.x-k8s.io/v1'',
      spc_name = idSuffix,
      spc_namespace = namespace,
      spc_provider = ''aws'',
      spc_objects =
        [\<lparr>so_objectName = secretArn, so_objectType = ''secretsmanager'', so_jmesPath = jmesPath\<rparr>],
      spc_secretObjects =
        [\<lparr>sob_secretName = k8sSecretName,
          sob_type = ''Opaque'',
          sob_data =
            map (\<lambda>mp. \<lparr>sd_objectName = jm_objectAlias mp, sd_key = jm_objectAlias mp\<rparr>) jmesPath\<rparr>]\<rparr>"

definition createSecretProviderClass ::
  "cluster \<Rightarrow> string \<Rightarrow> string \<Rightarrow> string \<Rightarrow> string \<Rightarrow> string \<Rightarrow>
   string option \<Rightarrow> string option \<Rightarrow> string option \<Rightarrow> string outcome" where
  "createSecretProviderClass c idSuffix namespace secretArn k8sSecretName k8sSecretKey
       secretProperty alternateProperty alternateKey =
     addManifest (''SecretProviderClass-'' @ idSuffix)
       (SecretProviderClass
          (spcDef idSuffix namespace secretArn k8sSecretName
             (jmesPath_of k8sSecretKey secretProperty alternateProperty alternateKey)))
       c"

section \<open>Inputs of the LegendPlatform construct\<close>

text \<open>
  \<open>LegendPlatformProps\<close>. Of every handle the model keeps the attributes the constructor
  reads: \<open>secretArn\<close> of a secret, \<open>vpcCidrBlock\<close> of the VPC, and of the DocumentDB
  cluster its optional master \<open>secret\<close> and its \<open>clusterEndpoint\<close>. The \<open>cluster\<close>
  field is the state threaded through the constructor and is passed on its own.
\<close>

record secret =
  secretArn :: string

record endpoint =
  hostname :: string
  port :: int

record docdb_cluster =
  docdb_secret :: "secret option"
  clusterEndpoint :: endpoint

record vpc =
  vpcCidrBlock :: string

record LegendPlatformProps =
  props_vpc :: vpc
  domainNameSecret :: secret
  certificateArnSecret :: secret
  gitlabAppIdSecret :: secret
  gitlabAppSecret :: secret
  grafanaAdminSecret :: secret
  docdbCluster :: docdb_cluster

section \<open>Number.prototype.toString on an integer\<close>

definition digit_char :: "nat \<Rightarrow> char" where
  "digit_char d = ''0123456789'' ! (d mod 10)"

fun digits :: "nat \<Rightarrow> string" where
  "digits n = (if n < 10 then [digit_char n] else digits (n div 10) @ [digit_char n])"

definition toString :: "int \<Rightarrow> string" where
  "toString i = (if i < 0 then CHR ''-'' # digits (nat (- i)) else digits (nat i))"

section \<open>The shared environment and the per-component manifests\<close>

definition commonEnv :: "docdb_cluster \<Rightarrow> env_var list" where
  "commonEnv db =
     [EnvSecretKeyRef ''LEGEND_DOMAIN'' ''legend-domain-secret'' ''LEGEND_DOMAIN'',
      EnvSecretKeyRef ''GITLAB_APP_ID'' ''legend-gitlab-id-secret'' ''GITLAB_APP_ID'',
      EnvSecretKeyRef ''GITLAB_APP_SECRET'' ''legend-gitlab-secret'' ''GITLAB_APP_SECRET'',
      EnvValue ''DOCDB_HOST'' (hostname (clusterEndpoint db)),
      EnvValue ''DOCDB_PORT'' (toString (port (clusterEndpoint db))),
      EnvValue ''DOCDB_NAME'' ''legend'',
      EnvSecretKeyRef ''DOCDB_USER'' ''legend-docdb-secret'' ''DOCDB_USERNAME'',
      EnvSecretKeyRef ''DOCDB_PASS'' ''legend-docdb-secret'' ''DOCDB_PASSWORD'']"

definition csiVolume :: "string \<Rightarrow> string \<Rightarrow> csi_volume" where
  "csiVolume nm spc =
     \<lparr>vol_name = nm, vol_driver = ''secrets-store.csi.k8s.io'', vol_readOnly = True,
      vol_secretProviderClass = spc\<rparr>"

text \<open>
  \<open>makeDeployment\<close> is a closure of the constructor: besides its three parameters it reads
  the constructor's \<open>namespace\<close> and \<open>commonEnv\<close>, which the model passes first.
\<close>

definition makeDeployment ::
  "string \<Rightarrow> env_var list \<Rightarrow> string \<Rightarrow> string \<Rightarrow> int \<Rightarrow> deployment_manifest" where
  "makeDeployment namespace cEnv appName img prt =
     \<lparr>dp_apiVersion = ''apps/v1'',
      dp_name = appName,
      dp_namespace = namespace,
      dp_replicas = 2,
      dp_matchLabels_app = appName,
      dp_template_labels_app = appName,
      dp_volumes =
        [csiVolume (appName @ ''-domain-vol'') ''domain-spc'',
         csiVolume (appName @ ''-cert-vol'') ''cert-spc'',
         csiVolume (appName @ ''-gitlabid-vol'') ''gitlab-id-spc'',
         csiVolume (appName @ ''-gitlabsecret-vol'') ''gitlab-secret-spc'',
         csiVolume (appName @ ''-grafana-vol'') ''grafana-spc'',
         csiVolume (appName @ ''-docdb-vol'') ''docdb-spc''],
      dp_containers =
        [\<lparr>ct_name = appName,
          ct_image = img,
          ct_imagePullPolicy = ''Always'',
          ct_ports = [prt],
          ct_env = cEnv,
          ct_volumeMounts =
            [\<lparr>vm_name = appName @ ''-domain-vol'',
              vm_mountPath = ''/mnt/'' @ appName @ ''/domain'', vm_readOnly = True\<rparr>,
             \<lparr>vm_name = appName @ ''-cert-vol'',
              vm_mountPath = ''/mnt/'' @ appName @ ''/cert'', vm_readOnly = True\<rparr>,
             \<lparr>vm_name = appName @ ''-gitlabid-vol'',
              vm_mountPath = ''/mnt/'' @ appName @ ''/gitlab-id'', vm_readOnly = True\<rparr>,
             \<lparr>vm_name = appName @ ''-gitlabsecret-vol'',
              vm_mountPath = ''/mnt/'' @ appName @ ''/gitlab-secret'', vm_readOnly = True\<rparr>,
             \<lparr>vm_name = appName @ ''-grafana-vol'',
              vm_mountPath = ''/mnt/'' @ appName @ ''/grafana'', vm_readOnly = True\<rparr>,
             \<lparr>vm_name = appName @ ''-docdb-vol'',
              vm_mountPath = ''/mnt/'' @ appName @ ''/docdb'', vm_readOnly = True\<rparr>]\<rparr>]\<rparr>"

definition makeService :: "string \<Rightarrow> string \<Rightarrow> int \<Rightarrow> service_manifest" where
  "makeService namespace appName prt =
     \<lparr>sv_apiVersion = ''v1'',
      sv_name = appName,
      sv_namespace = namespace,
      sv_selector_app = appName,
      sv_ports = [(prt, prt)],
      sv_type = ''ClusterIP''\<rparr>"

record component =
  comp_name :: string
  comp_image :: string
  comp_port :: int

definition components :: "component list" where
  "components =
     [\<lparr>comp_name = ''legend-engine'', comp_image = ''finos/legend-engine-server:latest'',
       comp_port = 6300\<rparr>,
      \<lparr>comp_name = ''legend-sdlc'', comp_image = ''finos/legend-sdlc-server:latest'',
       comp_port = 6100\<rparr>,
      \<lparr>comp_name = ''legend-studio'', comp_image = ''finos/legend-studio:latest'',
       comp_port = 9000\<rparr>,
      \<lparr>comp_name = ''legend-query'', comp_image = ''finos/legend-query:latest'',
       comp_port = 9001\<rparr>,
      \<lparr>comp_name = ''legend-pure-ide'',
       comp_image = ''finos/legend-engine-pure-ide-light:latest'', comp_port = 9200\<rparr>,
      \<lparr>comp_name = ''legend-depot'', comp_image = ''finos/legend-depot-server:latest'',
       comp_port = 6200\<rparr>,
      \<lparr>comp_name = ''legend-depot-store'',
       comp_image = ''finos/legend-depot-store-server:latest'', comp_port = 6201\<rparr>]"

text \<open>
  The body of \<open>for (const comp of components)\<close>, and the loop itself. \<open>prior\<close> is the
  list of handles the deployment is made to depend on: the namespace and the six
  SecretProviderClass nodes.
\<close>

definition deployComponent ::
  "string \<Rightarrow> env_var list \<Rightarrow> string list \<Rightarrow> component \<Rightarrow> cluster \<Rightarrow> unit outcome" where
  "deployComponent namespace cEnv prior cmp c =
     andThen
       (addManifest (comp_name cmp @ ''-deploy'')
          (Deployment
             (makeDeployment namespace cEnv (comp_name cmp) (comp_image cmp) (comp_port cmp)))
          c)
       (\<lambda>dplManifest c1.
     andThen
       (addManifest (comp_name cmp @ ''-svc'')
          (Service (makeService namespace (comp_name cmp) (comp_port cmp))) c1)
       (\<lambda>svcManifest c2.
          (Inr (),
           addDependency svcManifest [dplManifest] (addDependency dplManifest prior c2))))"

fun deployComponents ::
  "string \<Rightarrow> env_var list \<Rightarrow> string list \<Rightarrow> component list \<Rightarrow> cluster \<Rightarrow> unit outcome" where
  "deployComponents namespace cEnv prior [] c = (Inr (), c)"
| "deployComponents namespace cEnv prior (cmp # cmps) c =
     andThen (deployComponent namespace cEnv prior cmp c)
       (\<lambda>u c1. deployComponents namespace cEnv prior cmps c1)"

section \<open>Ingress and network policy\<close>

definition ingressPath :: "string \<Rightarrow> string \<Rightarrow> int \<Rightarrow> http_path" where
  "ingressPath p svc n =
     \<lparr>hp_path = p, hp_pathType = ''Prefix'', hp_service_name = svc, hp_service_port = n\<rparr>"

text \<open>The \<open>paths\<close> literal of the single ingress rule.\<close>

definition ingressPaths :: "http_path list" where
  "ingressPaths =
     [ingressPath ''/engine/*'' ''legend-engine'' 6300,
      ingressPath ''/sdlc/*'' ''legend-sdlc'' 6100,
      ingressPath ''/studio/*'' ''legend-studio'' 9000,
      ingressPath ''/query/*'' ''legend-query'' 9001,
      ingressPath ''/ide/*'' ''legend-pure-ide'' 9200,
      ingressPath ''/depot/*'' ''legend-depot'' 6200,
      ingressPath ''/depot-store/*'' ''legend-depot-store'' 6201]"

text \<open>
  The object literal of the \<open>LegendIngress\<close> manifest; it reads the constructor's
  \<open>namespace\<close>.
\<close>

definition ingressManifest :: "string \<Rightarrow> ingress_manifest" where
  "ingressManifest namespace =
     \<lparr>ig_apiVersion = ''networking.k8s.io/v1'',
      ig_name = ''legend-ingress'',
      ig_namespace = namespace,
      ig_annotations =
        [(''kubernetes.io/ingress.class'', ''alb''),
         (''alb.ingress.kubernetes.io/scheme'', ''internet-facing''),
         (''alb.ingress.kubernetes.io/listen-ports'',
            [CHR ''['', CHR ''{'', CHR 0x22] @ ''HTTP'' @ [CHR 0x22] @ '':80,'' @ [CHR 0x22]
              @ ''HTTPS'' @ [CHR 0x22] @ '':443}]''),
         (''alb.ingress.kubernetes.io/certificate-arn'', ''{{REPLACE_WITH_YOUR_CERT_ARN}}''),
         (''alb.ingress.kubernetes.io/ssl-redirect'', ''443'')],
      ig_rules = [\<lparr>ir_host = ''{{REPLACE_WITH_DOMAIN_NAME}}'', ir_paths = ingressPaths\<rparr>]\<rparr>"

definition networkPolicyManifest :: "string \<Rightarrow> vpc \<Rightarrow> networkpolicy_manifest" where
  "networkPolicyManifest namespace v =
     \<lparr>np_apiVersion = ''networking.k8s.io/v1'',
      np_name = ''legend-deny-all-except-alb'',
      np_namespace = namespace,
      np_policyTypes = [''Ingress''],
      np_ingress = [[vpcCidrBlock v]]\<rparr>"

section \<open>The constructor of LegendPlatform\<close>

text \<open>The object literal of the \<open>LegendNamespace\<close> manifest.\<close>

definition namespaceManifest :: "string \<Rightarrow> namespace_manifest" where
  "namespaceManifest namespace = \<lparr>nsm_apiVersion = ''v1'', nsm_name = namespace\<rparr>"

text \<open>
  The constructor mutates the cluster construct and may throw. The model returns
  whether it returned or threw, with the cluster as it stands at that moment.
  \<open>platformTail\<close> is the part after the check of \<open>docdbCluster.secret\<close>.
\<close>

definition platformTail ::
  "LegendPlatformProps \<Rightarrow> string \<Rightarrow> string \<Rightarrow> string list \<Rightarrow> secret \<Rightarrow> cluster \<Rightarrow> unit outcome" where
  "platformTail props namespace ns spcs dbSecret c5 =
     andThen
       (createSecretProviderClass c5 ''docdb-spc'' namespace (secretArn dbSecret)
          ''legend-docdb-secret'' ''DOCDB_PASSWORD''
          (Some ''password'') (Some ''username'') (Some ''DOCDB_USERNAME''))
       (\<lambda>docdbSpc c6.
     andThen
       (deployComponents namespace (commonEnv (docdbCluster props)) (ns # spcs @ [docdbSpc])
          components c6)
       (\<lambda>u c7.
     andThen (addManifest ''LegendIngress'' (Ingress (ingressManifest namespace)) c7)
       (\<lambda>ingress c8.
     andThen
       (addManifest ''LegendNetworkPolicy''
          (NetworkPolicy (networkPolicyManifest namespace (props_vpc props))) c8)
       (\<lambda>networkPolicy c9. (Inr (), addDependency networkPolicy [ingress] c9)))))"

definition LegendPlatform :: "LegendPlatformProps \<Rightarrow> cluster \<Rightarrow> unit outcome" where
  "LegendPlatform props c =
     (let namespace = ''legend'' in
      andThen (addManifest ''LegendNamespace'' (Namespace (namespaceManifest namespace)) c)
        (\<lambda>ns c0.
      andThen
        (createSecretProviderClass c0 ''domain-spc'' namespace
           (secretArn (domainNameSecret props)) ''legend-domain-secret'' ''LEGEND_DOMAIN''
           None None None)
        (\<lambda>domainSpc c1.
      andThen
        (createSecretProviderClass c1 ''cert-spc'' namespace
           (secretArn (certificateArnSecret props)) ''legend-certificate-secret''
           ''LEGEND_CERT_ARN'' None None None)
        (\<lambda>certSpc c2.
      andThen
        (createSecretProviderClass c2 ''gitlab-id-spc'' namespace
           (secretArn (gitlabAppIdSecret props)) ''legend-gitlab-id-secret'' ''GITLAB_APP_ID''
           None None None)
        (\<lambda>gitlabIdSpc c3.
      andThen
        (createSecretProviderClass c3 ''gitlab-secret-spc'' namespace
           (secretArn (gitlabAppSecret props)) ''legend-gitlab-secret'' ''GITLAB_APP_SECRET''
           None None None)
        (\<lambda>gitlabSecretSpc c4.
      andThen
        (createSecretProviderClass c4 ''grafana-spc'' namespace
           (secretArn (grafanaAdminSecret props)) ''legend-grafana-secret''
           ''GRAFANA_ADMIN_PASSWORD'' None None None)
        (\<lambda>grafanaSpc c5.
           case docdb_secret (docdbCluster props) of
             None \<Rightarrow>
               (Inl (Error
                  ''DocumentDB cluster has no master secret. Make sure docdb is configured with generated credentials.''),
                c5)
           | Some dbSecret \<Rightarrow>
               platformTail props namespace ns
                 [domainSpc, certSpc, gitlabIdSpc, gitlabSecretSpc, grafanaSpc] dbSecret c5)))))))"

section \<open>LegendSecretsStack\<close>

text \<open>
  The stack declares one KMS key and five \<open>secretsmanager.Secret\<close> constructs, each with
  its own \<open>secretName\<close>, and one output per secret. \<open>JSON.stringify({})\<close> is \<open>{}\<close>.
  An option of \<open>generateSecretString\<close> that a declaration leaves out is \<open>None\<close>.
\<close>

record generate_secret_string =
  secretStringTemplate :: string
  generateStringKey :: string
  passwordLength :: "int option"
  excludePunctuation :: "bool option"

record secret_construct =
  sc_id :: string
  sc_secretName :: string
  sc_description :: string
  sc_encryptionKey :: string
  sc_generateSecretString :: generate_secret_string

record kms_key =
  key_id :: string
  key_enableKeyRotation :: bool
  key_alias :: string

record secrets_stack =
  ss_secretsKey :: kms_key
  ss_secrets :: "secret_construct list"
  ss_outputs :: "(string \<times> string) list"

definition LegendSecretsStack :: secrets_stack where
  "LegendSecretsStack =
     (let secretsKey =
            \<lparr>key_id = ''LegendSecretsKey'', key_enableKeyRotation = True,
             key_alias = ''legend-secrets-key''\<rparr>;
          domainName =
            \<lparr>sc_id = ''LegendDomainNameSecret'', sc_secretName = ''legend/domainName'',
             sc_description = ''Legend domain name'', sc_encryptionKey = key_id secretsKey,
             sc_generateSecretString =
               \<lparr>secretStringTemplate = ''{}'', generateStringKey = ''value'',
                passwordLength = Some 1, excludePunctuation = None\<rparr>\<rparr>;
          certificateArn =
            \<lparr>sc_id = ''LegendCertificateArnSecret'', sc_secretName = ''legend/certificateArn'',
             sc_description = ''ACM certificate ARN for Legend domain'',
             sc_encryptionKey = key_id secretsKey,
             sc_generateSecretString =
               \<lparr>secretStringTemplate = ''{}'', generateStringKey = ''value'',
                passwordLength = Some 1, excludePunctuation = None\<rparr>\<rparr>;
          gitlabAppId =
            \<lparr>sc_id = ''LegendGitLabAppIdSecret'', sc_secretName = ''legend/gitlabAppId'',
             sc_description = ''GitLab App ID for Legend OAuth'',
             sc_encryptionKey = key_id secretsKey,
             sc_generateSecretString =
               \<lparr>secretStringTemplate = ''{}'', generateStringKey = ''value'',
                passwordLength = Some 1, excludePunctuation = None\<rparr>\<rparr>;
          gitlabApp =
            \<lparr>sc_id = ''LegendGitLabAppSecret'', sc_secretName = ''legend/gitlabAppSecret'',
             sc_description = ''GitLab App Secret for Legend OAuth'',
             sc_encryptionKey = key_id secretsKey,
             sc_generateSecretString =
               \<lparr>secretStringTemplate = ''{}'', generateStringKey = ''value'',
                passwordLength = None, excludePunctuation = Some False\<rparr>\<rparr>;
          grafanaAdmin =
            \<lparr>sc_id = ''LegendGrafanaAdminSecret'',
             sc_secretName = ''legend/grafanaAdminPassword'',
             sc_description = ''Admin password for Grafana UI'',
             sc_encryptionKey = key_id secretsKey,
             sc_generateSecretString =
               \<lparr>secretStringTemplate = ''{}'', generateStringKey = ''value'',
                passwordLength = Some 16, excludePunctuation = Some False\<rparr>\<rparr>
      in \<lparr>ss_secretsKey = secretsKey,
          ss_secrets = [domainName, certificateArn, gitlabAppId, gitlabApp, grafanaAdmin],
          ss_outputs =
            [(''DomainNameSecretName'', sc_secretName domainName),
             (''CertificateArnSecretName'', sc_secretName certificateArn),
             (''GitLabAppIdSecretName'', sc_secretName gitlabAppId),
             (''GitLabAppSecretSecretName'', sc_secretName gitlabApp),
             (''GrafanaAdminSecretName'', sc_secretName grafanaAdmin)]\<rparr>)"

section \<open>Reading the built graph\<close>

text \<open>
  The graph the platform declares on its own: the constructor run on a cluster construct
  that has no manifest yet.
\<close>

definition emptyCluster :: cluster where
  "emptyCluster = \<lparr>manifests = [], dependencies = []\<rparr>"

definition platformGraph :: "LegendPlatformProps \<Rightarrow> cluster" where
  "platformGraph props = snd (LegendPlatform props emptyCluster)"

text \<open>The nodes of each kind, in declaration order.\<close>

fun spcOf :: "manifest \<Rightarrow> spc_manifest list" where
  "spcOf (SecretProviderClass m) = [m]"
| "spcOf _ = []"

fun deploymentOf :: "manifest \<Rightarrow> deployment_manifest list" where
  "deploymentOf (Deployment d) = [d]"
| "deploymentOf _ = []"

fun ingressOf :: "manifest \<Rightarrow> ingress_manifest list" where
  "ingressOf (Ingress i) = [i]"
| "ingressOf _ = []"

definition spcNodes :: "cluster \<Rightarrow> spc_manifest list" where
  "spcNodes c = concat (map (spcOf \<circ> snd) (manifests c))"

definition deploymentNodes :: "cluster \<Rightarrow> deployment_manifest list" where
  "deploymentNodes c = concat (map (deploymentOf \<circ> snd) (manifests c))"

text \<open>The routing rules of the graph: every path of every rule of every Ingress node.\<close>

definition routingRules :: "cluster \<Rightarrow> http_path list" where
  "routingRules c =
     concat (map ir_paths (concat (map ig_rules (concat (map (ingressOf \<circ> snd) (manifests c))))))"

text \<open>A workload manifest is a Deployment or a Service.\<close>

fun isWorkload :: "manifest \<Rightarrow> bool" where
  "isWorkload (Deployment d) = True"
| "isWorkload (Service s) = True"
| "isWorkload _ = False"

text \<open>The namespace a manifest is placed in; a Namespace manifest is placed in none.\<close>

fun manifestNamespace :: "manifest \<Rightarrow> string option" where
  "manifestNamespace (Namespace n) = None"
| "manifestNamespace (SecretProviderClass m) = Some (spc_namespace m)"
| "manifestNamespace (Deployment d) = Some (dp_namespace d)"
| "manifestNamespace (Service s) = Some (sv_namespace s)"
| "manifestNamespace (Ingress i) = Some (ig_namespace i)"
| "manifestNamespace (NetworkPolicy p) = Some (np_namespace p)"

text \<open>The nodes a node is declared to depend on, in declaration order.\<close>

definition dependsOn :: "cluster \<Rightarrow> string \<Rightarrow> string list" where
  "dependsOn c n = map snd (filter (\<lambda>e. fst e = n) (dependencies c))"



definition syncedKeys :: "spc_manifest \<Rightarrow> (string \<times> string) list" where
  "syncedKeys m =
     concat (map (\<lambda>so. map (\<lambda>d. (sob_secretName so, sd_key d)) (sob_data so))
       (spc_secretObjects m))"

text \<open>
  What a deployment mounts: the SecretProviderClass names of its volumes; and the
  \<open>(secretName, key)\<close> pairs provided by the bindings of the graph that it mounts.
\<close>

definition mountList :: "deployment_manifest \<Rightarrow> string list" where
  "mountList d = map vol_secretProviderClass (dp_volumes d)"

definition mountedKeys :: "cluster \<Rightarrow> deployment_manifest \<Rightarrow> (string \<times> string) list" where
  "mountedKeys c d =
     concat (map syncedKeys (filter (\<lambda>m. spc_name m \<in> set (mountList d)) (spcNodes c)))"

text \<open>The environment of a deployment, and the secret references and literals in it.\<close>

definition envOf :: "deployment_manifest \<Rightarrow> env_var list" where
  "envOf d = concat (map ct_env (dp_containers d))"

fun secretRefs :: "env_var list \<Rightarrow> (string \<times> string) list" where
  "secretRefs [] = []"
| "secretRefs (EnvSecretKeyRef n s k # es) = (s, k) # secretRefs es"
| "secretRefs (EnvValue n v # es) = secretRefs es"

fun literals :: "env_var list \<Rightarrow> (string \<times> string) list" where
  "literals [] = []"
| "literals (EnvValue n v # es) = (n, v) # literals es"
| "literals (EnvSecretKeyRef n s k # es) = literals es"

text \<open>A sample input, for evaluating the constructor.\<close>

definition sampleProps :: LegendPlatformProps where
  "sampleProps =
     \<lparr>props_vpc = \<lparr>vpcCidrBlock = ''10.0.0.0/16''\<rparr>,
      domainNameSecret = \<lparr>secretArn = ''arn:domainName''\<rparr>,
      certificateArnSecret = \<lparr>secretArn = ''arn:certificateArn''\<rparr>,
      gitlabAppIdSecret = \<lparr>secretArn = ''arn:gitlabAppId''\<rparr>,
      gitlabAppSecret = \<lparr>secretArn = ''arn:gitlabAppSecret''\<rparr>,
      grafanaAdminSecret = \<lparr>secretArn = ''arn:grafanaAdminPassword''\<rparr>,
      docdbCluster =
        \<lparr>docdb_secret = Some \<lparr>secretArn = ''arn:docdb''\<rparr>,
         clusterEndpoint = \<lparr>hostname = ''docdb.example'', port = 27017\<rparr>\<rparr>\<rparr>"

text \<open>The same input with a DocumentDB cluster that carries no master secret.\<close>

definition propsWithoutMasterSecret :: LegendPlatformProps where
  "propsWithoutMasterSecret =
     sampleProps\<lparr>docdbCluster := (docdbCluster sampleProps)\<lparr>docdb_secret := None\<rparr>\<rparr>"

section \<open>The shape of the built graph\<close>

lemmas build_defs =
  LegendPlatform_def platformTail_def createSecretProviderClass_def deployComponent_def
  addManifest_def addDependency_def andThen_def components_def Let_def

lemma LegendPlatform_emptyCluster:
  assumes "docdb_secret (docdbCluster props) = Some s"
  shows "LegendPlatform props emptyCluster =
   (Inr (),
    \<lparr>manifests =
    [(''LegendNamespace'', Namespace (namespaceManifest ''legend'')),
     (''SecretProviderClass-domain-spc'', SecretProviderClass
        (spcDef ''domain-spc'' ''legend'' (secretArn (domainNameSecret props))
           ''legend-domain-secret'' (jmesPath_of ''LEGEND_DOMAIN'' None None None))),
     (''SecretProviderClass-cert-spc'', SecretProviderClass
        (spcDef ''cert-spc'' ''legend'' (secretArn (certificateArnSecret props))
           ''legend-certificate-secret'' (jmesPath_of ''LEGEND_CERT_ARN'' None None None))),
     (''SecretProviderClass-gitlab-id-spc'', SecretProviderClass
        (spcDef ''gitlab-id-spc'' ''legend'' (secretArn (gitlabAppIdSecret props))
           ''legend-gitlab-id-secret'' (jmesPath_of ''GITLAB_APP_ID'' None None None))),
     (''SecretProviderClass-gitlab-secret-spc'', SecretProviderClass
        (spcDef ''gitlab-secret-spc'' ''legend'' (secretArn (gitlabAppSecret props))
           ''legend-gitlab-secret'' (jmesPath_of ''GITLAB_APP_SECRET'' None None None))),
     (''SecretProviderClass-grafana-spc'', SecretProviderClass
        (spcDef ''grafana-spc'' ''legend'' (secretArn (grafanaAdminSecret props))
           ''legend-grafana-secret'' (jmesPath_of ''GRAFANA_ADMIN_PASSWORD'' None None None))),
     (''SecretProviderClass-docdb-spc'', SecretProviderClass
        (spcDef ''docdb-spc'' ''legend'' (secretArn s)
           ''legend-docdb-secret''
           (jmesPath_of ''DOCDB_PASSWORD'' (Some ''password'') (Some ''username'')
              (Some ''DOCDB_USERNAME''))))] @
    concat (map (\<lambda>cmp.
        [(comp_name cmp @ ''-deploy'',
          Deployment (makeDeployment ''legend'' (commonEnv (docdbCluster props))
             (comp_name cmp) (comp_image cmp) (comp_port cmp))),
         (comp_name cmp @ ''-svc'',
          Service (makeService ''legend'' (comp_name cmp) (comp_port cmp)))]) components) @
    [(''LegendIngress'', Ingress (ingressManifest ''legend'')),
     (''LegendNetworkPolicy'', NetworkPolicy (networkPolicyManifest ''legend'' (props_vpc props)))],
    dependencies =
    concat (map (\<lambda>cmp.
        map (\<lambda>d. (comp_name cmp @ ''-deploy'', d))
          [''LegendNamespace'', ''SecretProviderClass-domain-spc'',
           ''SecretProviderClass-cert-spc'', ''SecretProviderClass-gitlab-id-spc'',
           ''SecretProviderClass-gitlab-secret-spc'', ''SecretProviderClass-grafana-spc'',
           ''SecretProviderClass-docdb-spc''] @
        [(comp_name cmp @ ''-svc'', comp_name cmp @ ''-deploy'')]) components) @
    [(''LegendNetworkPolicy'', ''LegendIngress'')]\<rparr>)"
  using assms by (simp add: build_defs emptyCluster_def)


lemma LegendPlatform_fresh:
  assumes "docdb_secret (docdbCluster props) = Some s"
    and "set (map fst (manifests c)) \<inter>
      set [''LegendNamespace'', ''SecretProviderClass-domain-spc'',
        ''SecretProviderClass-cert-spc'', ''SecretProviderClass-gitlab-id-spc'',
        ''SecretProviderClass-gitlab-secret-spc'', ''SecretProviderClass-grafana-spc'',
        ''SecretProviderClass-docdb-spc'',
        ''legend-engine-deploy'', ''legend-engine-svc'', ''legend-sdlc-deploy'',
        ''legend-sdlc-svc'', ''legend-studio-deploy'', ''legend-studio-svc'',
        ''legend-query-deploy'', ''legend-query-svc'', ''legend-pure-ide-deploy'',
        ''legend-pure-ide-svc'', ''legend-depot-deploy'', ''legend-depot-svc'',
        ''legend-depot-store-deploy'', ''legend-depot-store-svc'', ''LegendIngress'',
        ''LegendNetworkPolicy''] = {}"
  shows "LegendPlatform props c =
    (Inr (),
     \<lparr>manifests = manifests c @ manifests (snd (LegendPlatform props emptyCluster)),
      dependencies = dependencies c @ dependencies (snd (LegendPlatform props emptyCluster))\<rparr>)"
  unfolding LegendPlatform_emptyCluster [OF assms(1)]
  using assms by (simp add: build_defs image_iff)

lemma LegendPlatform_throws_fresh:
  assumes "docdb_secret (docdbCluster props) = None"
    and "set (map fst (manifests c)) \<inter>
      set [''LegendNamespace'', ''SecretProviderClass-domain-spc'',
        ''SecretProviderClass-cert-spc'', ''SecretProviderClass-gitlab-id-spc'',
        ''SecretProviderClass-gitlab-secret-spc'', ''SecretProviderClass-grafana-spc''] = {}"
  shows "LegendPlatform props c =
   (Inl (Error
      ''DocumentDB cluster has no master secret. Make sure docdb is configured with generated credentials.''),
    \<lparr>manifests = manifests c @
    [(''LegendNamespace'', Namespace (namespaceManifest ''legend'')),
     (''SecretProviderClass-domain-spc'', SecretProviderClass
        (spcDef ''domain-spc'' ''legend'' (secretArn (domainNameSecret props))
           ''legend-domain-secret'' (jmesPath_of ''LEGEND_DOMAIN'' None None None))),
     (''SecretProviderClass-cert-spc'', SecretProviderClass
        (spcDef ''cert-spc'' ''legend'' (secretArn (certificateArnSecret props))
           ''legend-certificate-secret'' (jmesPath_of ''LEGEND_CERT_ARN'' None None None))),
     (''SecretProviderClass-gitlab-id-spc'', SecretProviderClass
        (spcDef ''gitlab-id-spc'' ''legend'' (secretArn (gitlabAppIdSecret props))
           ''legend-gitlab-id-secret'' (jmesPath_of ''GITLAB_APP_ID'' None None None))),
     (''SecretProviderClass-gitlab-secret-spc'', SecretProviderClass
        (spcDef ''gitlab-secret-spc'' ''legend'' (secretArn (gitlabAppSecret props))
           ''legend-gitlab-secret'' (jmesPath_of ''GITLAB_APP_SECRET'' None None None))),
     (''SecretProviderClass-grafana-spc'', SecretProviderClass
        (spcDef ''grafana-spc'' ''legend'' (secretArn (grafanaAdminSecret props))
           ''legend-grafana-secret'' (jmesPath_of ''GRAFANA_ADMIN_PASSWORD'' None None None)))],
     dependencies = dependencies c\<rparr>)"
  using assms
  by (simp add: LegendPlatform_def createSecretProviderClass_def addManifest_def andThen_def
      Let_def image_iff)

lemma LegendPlatform_throws_any:
  assumes "docdb_secret (docdbCluster props) = None"
  shows "fst (LegendPlatform props c) \<noteq> Inr ()"
    and "filter (\<lambda>n. isWorkload (snd n) \<or> fst n = ''SecretProviderClass-docdb-spc'')
           (manifests (snd (LegendPlatform props c))) =
         filter (\<lambda>n. isWorkload (snd n) \<or> fst n = ''SecretProviderClass-docdb-spc'')
           (manifests c)"
    and "dependencies (snd (LegendPlatform props c)) = dependencies c"
  using assms
  by (simp_all add: LegendPlatform_def createSecretProviderClass_def addManifest_def andThen_def
      Let_def)

lemma manifests_platformGraph:
  assumes "docdb_secret (docdbCluster props) = Some s"
  shows "manifests (platformGraph props) =
    [(''LegendNamespace'', Namespace (namespaceManifest ''legend'')),
     (''SecretProviderClass-domain-spc'', SecretProviderClass
        (spcDef ''domain-spc'' ''legend'' (secretArn (domainNameSecret props))
           ''legend-domain-secret'' (jmesPath_of ''LEGEND_DOMAIN'' None None None))),
     (''SecretProviderClass-cert-spc'', SecretProviderClass
        (spcDef ''cert-spc'' ''legend'' (secretArn (certificateArnSecret props))
           ''legend-certificate-secret'' (jmesPath_of ''LEGEND_CERT_ARN'' None None None))),
     (''SecretProviderClass-gitlab-id-spc'', SecretProviderClass
        (spcDef ''gitlab-id-spc'' ''legend'' (secretArn (gitlabAppIdSecret props))
           ''legend-gitlab-id-secret'' (jmesPath_of ''GITLAB_APP_ID'' None None None))),
     (''SecretProviderClass-gitlab-secret-spc'', SecretProviderClass
        (spcDef ''gitlab-secret-spc'' ''legend'' (secretArn (gitlabAppSecret props))
           ''legend-gitlab-secret'' (jmesPath_of ''GITLAB_APP_SECRET'' None None None))),
     (''SecretProviderClass-grafana-spc'', SecretProviderClass
        (spcDef ''grafana-spc'' ''legend'' (secretArn (grafanaAdminSecret props))
           ''legend-grafana-secret'' (jmesPath_of ''GRAFANA_ADMIN_PASSWORD'' None None None))),
     (''SecretProviderClass-docdb-spc'', SecretProviderClass
        (spcDef ''docdb-spc'' ''legend'' (secretArn s)
           ''legend-docdb-secret''
           (jmesPath_of ''DOCDB_PASSWORD'' (Some ''password'') (Some ''username'')
              (Some ''DOCDB_USERNAME''))))] @
    concat (map (\<lambda>cmp.
        [(comp_name cmp @ ''-deploy'',
          Deployment (makeDeployment ''legend'' (commonEnv (docdbCluster props))
             (comp_name cmp) (comp_image cmp) (comp_port cmp))),
         (comp_name cmp @ ''-svc'',
          Service (makeService ''legend'' (comp_name cmp) (comp_port cmp)))]) components) @
    [(''LegendIngress'', Ingress (ingressManifest ''legend'')),
     (''LegendNetworkPolicy'', NetworkPolicy (networkPolicyManifest ''legend'' (props_vpc props)))]"
  by (simp add: platformGraph_def LegendPlatform_emptyCluster [OF assms])

lemma dependencies_platformGraph:
  assumes "docdb_secret (docdbCluster props) = Some s"
  shows "dependencies (platformGraph props) =
    concat (map (\<lambda>n.
        map (\<lambda>d. (n @ ''-deploy'', d))
          [''LegendNamespace'', ''SecretProviderClass-domain-spc'',
           ''SecretProviderClass-cert-spc'', ''SecretProviderClass-gitlab-id-spc'',
           ''SecretProviderClass-gitlab-secret-spc'', ''SecretProviderClass-grafana-spc'',
           ''SecretProviderClass-docdb-spc''] @
        [(n @ ''-svc'', n @ ''-deploy'')])
      [''legend-engine'', ''legend-sdlc'', ''legend-studio'', ''legend-query'',
       ''legend-pure-ide'', ''legend-depot'', ''legend-depot-store'']) @
    [(''LegendNetworkPolicy'', ''LegendIngress'')]"
  by (simp add: platformGraph_def LegendPlatform_emptyCluster [OF assms] components_def)

section \<open>The nodes of each kind\<close>

lemma deploymentOf_component_nodes:
  "concat (map (deploymentOf \<circ> snd)
     (concat (map (\<lambda>cmp. [(a cmp, Deployment (d cmp)), (b cmp, Service (sv cmp))]) cs))) = map d cs"
  by (induction cs) simp_all

lemma spcOf_component_nodes:
  "concat (map (spcOf \<circ> snd)
     (concat (map (\<lambda>cmp. [(a cmp, Deployment (d cmp)), (b cmp, Service (sv cmp))]) cs))) = []"
  by (induction cs) simp_all

lemma ingressOf_component_nodes:
  "concat (map (ingressOf \<circ> snd)
     (concat (map (\<lambda>cmp. [(a cmp, Deployment (d cmp)), (b cmp, Service (sv cmp))]) cs))) = []"
  by (induction cs) simp_all

lemma spcNodes_platformGraph:
  assumes "docdb_secret (docdbCluster props) = Some s"
  shows "spcNodes (platformGraph props) =
    [spcDef ''domain-spc'' ''legend'' (secretArn (domainNameSecret props))
       ''legend-domain-secret'' (jmesPath_of ''LEGEND_DOMAIN'' None None None),
     spcDef ''cert-spc'' ''legend'' (secretArn (certificateArnSecret props))
       ''legend-certificate-secret'' (jmesPath_of ''LEGEND_CERT_ARN'' None None None),
     spcDef ''gitlab-id-spc'' ''legend'' (secretArn (gitlabAppIdSecret props))
       ''legend-gitlab-id-secret'' (jmesPath_of ''GITLAB_APP_ID'' None None None),
     spcDef ''gitlab-secret-spc'' ''legend'' (secretArn (gitlabAppSecret props))
       ''legend-gitlab-secret'' (jmesPath_of ''GITLAB_APP_SECRET'' None None None),
     spcDef ''grafana-spc'' ''legend'' (secretArn (grafanaAdminSecret props))
       ''legend-grafana-secret'' (jmesPath_of ''GRAFANA_ADMIN_PASSWORD'' None None None),
     spcDef ''docdb-spc'' ''legend'' (secretArn s) ''legend-docdb-secret''
       (jmesPath_of ''DOCDB_PASSWORD'' (Some ''password'') (Some ''username'')
          (Some ''DOCDB_USERNAME''))]"
  by (simp add: spcNodes_def manifests_platformGraph [OF assms] spcOf_component_nodes)

lemma deploymentNodes_platformGraph:
  assumes "docdb_secret (docdbCluster props) = Some s"
  shows "deploymentNodes (platformGraph props) =
    map (\<lambda>cmp. makeDeployment ''legend'' (commonEnv (docdbCluster props))
           (comp_name cmp) (comp_image cmp) (comp_port cmp)) components"
  by (simp add: deploymentNodes_def manifests_platformGraph [OF assms] deploymentOf_component_nodes)

lemma routingRules_platformGraph:
  assumes "docdb_secret (docdbCluster props) = Some s"
  shows "routingRules (platformGraph props) = ingressPaths"
  by (simp add: routingRules_def manifests_platformGraph [OF assms] ingressOf_component_nodes ingressManifest_def)

section \<open>One binding per secret record\<close>

text \<open>
  C2. LegendSecretsStack declares five secrets under pairwise distinct names; the
  DocumentDB cluster brings the sixth record, its master secret. The graph built from
  them holds exactly six bindings (SecretProviderClass nodes). Every binding reads
  exactly one record, the six of them in turn, and syncs it to exactly one Kubernetes
  Secret; the six target secret names are pairwise distinct. So no target secret
  receives values of two records; the username and password of \<open>legend-docdb-secret\<close>
  both come from the one database record.
\<close>
theorem six_records_six_bindings:
  assumes "docdb_secret (docdbCluster props) = Some s"
  shows "length (ss_secrets LegendSecretsStack) = 5
    \<and> distinct (map sc_secretName (ss_secrets LegendSecretsStack))
    \<and> length (spcNodes (platformGraph props)) = 6
    \<and> map (\<lambda>m. map so_objectName (spc_objects m)) (spcNodes (platformGraph props)) =
        [[secretArn (domainNameSecret props)], [secretArn (certificateArnSecret props)],
         [secretArn (gitlabAppIdSecret props)], [secretArn (gitlabAppSecret props)],
         [secretArn (grafanaAdminSecret props)], [secretArn s]]
    \<and> map (\<lambda>m. map sob_secretName (spc_secretObjects m)) (spcNodes (platformGraph props)) =
        [[''legend-domain-secret''], [''legend-certificate-secret''],
         [''legend-gitlab-id-secret''], [''legend-gitlab-secret''],
         [''legend-grafana-secret''], [''legend-docdb-secret'']]
    \<and> distinct (concat (map (\<lambda>m. map sob_secretName (spc_secretObjects m))
          (spcNodes (platformGraph props))))"
proof -
  have a: "length (ss_secrets LegendSecretsStack) = 5"
    by (simp add: LegendSecretsStack_def Let_def)
  have b: "distinct (map sc_secretName (ss_secrets LegendSecretsStack))"
    by (simp add: LegendSecretsStack_def Let_def)
  note n = spcNodes_platformGraph [OF assms]
  have c: "length (spcNodes (platformGraph props)) = 6"
    by (simp add: n)
  have d: "map (\<lambda>m. map so_objectName (spc_objects m)) (spcNodes (platformGraph props)) =
        [[secretArn (domainNameSecret props)], [secretArn (certificateArnSecret props)],
         [secretArn (gitlabAppIdSecret props)], [secretArn (gitlabAppSecret props)],
         [secretArn (grafanaAdminSecret props)], [secretArn s]]"
    by (simp add: n spcDef_def)
  have e: "map (\<lambda>m. map sob_secretName (spc_secretObjects m)) (spcNodes (platformGraph props)) =
        [[''legend-domain-secret''], [''legend-certificate-secret''],
         [''legend-gitlab-id-secret''], [''legend-gitlab-secret''],
         [''legend-grafana-secret''], [''legend-docdb-secret'']]"
    by (simp add: n spcDef_def)
  have f: "distinct (concat (map (\<lambda>m. map sob_secretName (spc_secretObjects m))
          (spcNodes (platformGraph props))))"
    by (simp add: e)
  from a b c d e f show ?thesis by blast
qed

theorem six_records_six_bindings_witness:
  "docdb_secret (docdbCluster sampleProps) = Some \<lparr>secretArn = ''arn:docdb''\<rparr>
    \<and> length (spcNodes (platformGraph sampleProps)) = 6
    \<and> map (\<lambda>m. map so_objectName (spc_objects m)) (spcNodes (platformGraph sampleProps)) =
        [[''arn:domainName''], [''arn:certificateArn''], [''arn:gitlabAppId''],
         [''arn:gitlabAppSecret''], [''arn:grafanaAdminPassword''], [''arn:docdb'']]
    \<and> distinct (concat (map (\<lambda>m. map sob_secretName (spc_secretObjects m))
          (spcNodes (platformGraph sampleProps))))"
proof -
  have h: "docdb_secret (docdbCluster sampleProps) = Some \<lparr>secretArn = ''arn:docdb''\<rparr>"
    by (simp add: sampleProps_def)
  have v: "secretArn (domainNameSecret sampleProps) = ''arn:domainName''"
    "secretArn (certificateArnSecret sampleProps) = ''arn:certificateArn''"
    "secretArn (gitlabAppIdSecret sampleProps) = ''arn:gitlabAppId''"
    "secretArn (gitlabAppSecret sampleProps) = ''arn:gitlabAppSecret''"
    "secretArn (grafanaAdminSecret sampleProps) = ''arn:grafanaAdminPassword''"
    by (simp_all add: sampleProps_def)
  from six_records_six_bindings [OF h] h v show ?thesis by simp
qed

section \<open>The field map of a binding\<close>



lemma syncedKeys_spcDef:
  "syncedKeys (spcDef i ns arn nm jm) = map (\<lambda>j. (nm, jm_objectAlias j)) jm"
  by (simp add: syncedKeys_def spcDef_def comp_def)

lemma jmesPath_of_whole:
  "\<not> truthy sp \<Longrightarrow> \<not> (truthy ap \<and> truthy ak) \<Longrightarrow>
     jmesPath_of k sp ap ak = [\<lparr>jm_path = ''.'', jm_objectAlias = k\<rparr>]"
  by (auto simp add: jmesPath_of_def Let_def)

lemma jmesPath_of_docdb:
  "jmesPath_of ''DOCDB_PASSWORD'' (Some ''password'') (Some ''username'') (Some ''DOCDB_USERNAME'') =
     [\<lparr>jm_path = ''password'', jm_objectAlias = ''DOCDB_PASSWORD''\<rparr>,
      \<lparr>jm_path = ''username'', jm_objectAlias = ''DOCDB_USERNAME''\<rparr>]"
  by (simp add: jmesPath_of_def)

section \<open>The routing table\<close>

lemma ingressPaths_paths:
  "map hp_path ingressPaths =
     [''/engine/*'', ''/sdlc/*'', ''/studio/*'', ''/query/*'', ''/ide/*'', ''/depot/*'',
      ''/depot-store/*'']"
  by (simp add: ingressPaths_def ingressPath_def)

lemma ingressPaths_pairwise:
  "\<forall>p \<in> set (map hp_path ingressPaths). \<forall>q \<in> set (map hp_path ingressPaths).
     p \<noteq> q \<longrightarrow> \<not> prefix p q \<and> \<not> prefix (butlast p) q"
  unfolding ingressPaths_paths by simp

lemma ingressPaths_inj: "inj_on hp_path (set ingressPaths)"
proof -
  have "distinct (map hp_path ingressPaths)"
    unfolding ingressPaths_paths by simp
  then show ?thesis by (simp add: distinct_map)
qed

text \<open>
  C8. The routing table of the built graph has the seven rules of the source, and of
  any two different rules neither path is a string prefix of the other. The same
  holds when the trailing wildcard \<open>*\<close> is dropped from the shorter side:
  \<open>/depot/\<close> is not a prefix of \<open>/depot-store/*\<close>.
\<close>

theorem routing_prefixes_disjoint:
  assumes "docdb_secret (docdbCluster props) = Some s"
    and "a \<in> set (routingRules (platformGraph props))"
    and "b \<in> set (routingRules (platformGraph props))"
    and "a \<noteq> b"
  shows "map hp_path (routingRules (platformGraph props)) =
      [''/engine/*'', ''/sdlc/*'', ''/studio/*'', ''/query/*'', ''/ide/*'', ''/depot/*'',
       ''/depot-store/*'']
    \<and> \<not> prefix (hp_path a) (hp_path b) \<and> \<not> prefix (hp_path b) (hp_path a)
    \<and> \<not> prefix (butlast (hp_path a)) (hp_path b)
    \<and> \<not> prefix (butlast (hp_path b)) (hp_path a)"
proof -
  note r = routingRules_platformGraph [OF assms(1)]
  have paths: "map hp_path (routingRules (platformGraph props)) =
      [''/engine/*'', ''/sdlc/*'', ''/studio/*'', ''/query/*'', ''/ide/*'', ''/depot/*'',
       ''/depot-store/*'']"
    by (simp add: r ingressPaths_paths)
  have a: "a \<in> set ingressPaths" and b: "b \<in> set ingressPaths"
    using assms(2,3) by (simp_all add: r)
  have ne: "hp_path a \<noteq> hp_path b"
    using ingressPaths_inj a b assms(4) by (auto dest: inj_onD)
  have pa: "hp_path a \<in> set (map hp_path ingressPaths)"
    and pb: "hp_path b \<in> set (map hp_path ingressPaths)"
    using a b by simp_all
  from ingressPaths_pairwise pa pb ne
  have "\<not> prefix (hp_path a) (hp_path b) \<and> \<not> prefix (butlast (hp_path a)) (hp_path b)"
    by blast
  moreover from ingressPaths_pairwise pa pb ne
  have "\<not> prefix (hp_path b) (hp_path a) \<and> \<not> prefix (butlast (hp_path b)) (hp_path a)"
    by (metis (no_types))
  ultimately show ?thesis using paths by blast
qed

theorem routing_prefixes_disjoint_witness:
  "docdb_secret (docdbCluster sampleProps) = Some \<lparr>secretArn = ''arn:docdb''\<rparr>
   \<and> ingressPath ''/depot/*'' ''legend-depot'' 6200 \<in> set (routingRules (platformGraph sampleProps))
   \<and> ingressPath ''/depot-store/*'' ''legend-depot-store'' 6201
        \<in> set (routingRules (platformGraph sampleProps))
   \<and> ingressPath ''/depot/*'' ''legend-depot'' 6200
        \<noteq> ingressPath ''/depot-store/*'' ''legend-depot-store'' 6201
   \<and> \<not> prefix (hp_path (ingressPath ''/depot/*'' ''legend-depot'' 6200))
          (hp_path (ingressPath ''/depot-store/*'' ''legend-depot-store'' 6201))
   \<and> \<not> prefix (hp_path (ingressPath ''/depot-store/*'' ''legend-depot-store'' 6201))
          (hp_path (ingressPath ''/depot/*'' ''legend-depot'' 6200))
   \<and> \<not> prefix (butlast (hp_path (ingressPath ''/depot/*'' ''legend-depot'' 6200)))
          (hp_path (ingressPath ''/depot-store/*'' ''legend-depot-store'' 6201))"
proof -
  have h: "docdb_secret (docdbCluster sampleProps) = Some \<lparr>secretArn = ''arn:docdb''\<rparr>"
    by (simp add: sampleProps_def)
  have a: "ingressPath ''/depot/*'' ''legend-depot'' 6200
      \<in> set (routingRules (platformGraph sampleProps))"
    by (simp add: routingRules_platformGraph [OF h] ingressPaths_def)
  have b: "ingressPath ''/depot-store/*'' ''legend-depot-store'' 6201
      \<in> set (routingRules (platformGraph sampleProps))"
    by (simp add: routingRules_platformGraph [OF h] ingressPaths_def)
  have ne: "ingressPath ''/depot/*'' ''legend-depot'' 6200
      \<noteq> ingressPath ''/depot-store/*'' ''legend-depot-store'' 6201"
    by (simp add: ingressPath_def)
  from routing_prefixes_disjoint [OF h a b ne] h a b ne
  show ?thesis by blast
qed

section \<open>Mounts and environment of the workloads\<close>

lemma mountList_makeDeployment:
  "mountList (makeDeployment ns cEnv appName img prt) =
     [''domain-spc'', ''cert-spc'', ''gitlab-id-spc'', ''gitlab-secret-spc'', ''grafana-spc'',
      ''docdb-spc'']"
  by (simp add: mountList_def makeDeployment_def csiVolume_def)

lemma envOf_makeDeployment:
  "envOf (makeDeployment ns cEnv appName img prt) = cEnv"
  by (simp add: envOf_def makeDeployment_def)

lemma volumeMounts_makeDeployment:
  "map vm_name (concat (map ct_volumeMounts (dp_containers (makeDeployment ns cEnv appName img prt)))) =
     map vol_name (dp_volumes (makeDeployment ns cEnv appName img prt))"
  by (simp add: makeDeployment_def csiVolume_def)

lemma secretRefs_commonEnv:
  "secretRefs (commonEnv db) =
     [(''legend-domain-secret'', ''LEGEND_DOMAIN''),
      (''legend-gitlab-id-secret'', ''GITLAB_APP_ID''),
      (''legend-gitlab-secret'', ''GITLAB_APP_SECRET''),
      (''legend-docdb-secret'', ''DOCDB_USERNAME''),
      (''legend-docdb-secret'', ''DOCDB_PASSWORD'')]"
  by (simp add: commonEnv_def)

lemma literals_commonEnv:
  "literals (commonEnv db) =
     [(''DOCDB_HOST'', hostname (clusterEndpoint db)),
      (''DOCDB_PORT'', toString (port (clusterEndpoint db))),
      (''DOCDB_NAME'', ''legend'')]"
  by (simp add: commonEnv_def)

lemma mountedKeys_platformGraph:
  assumes "docdb_secret (docdbCluster props) = Some s"
    and "mountList d =
     [''domain-spc'', ''cert-spc'', ''gitlab-id-spc'', ''gitlab-secret-spc'', ''grafana-spc'',
      ''docdb-spc'']"
  shows "mountedKeys (platformGraph props) d =
     [(''legend-domain-secret'', ''LEGEND_DOMAIN''),
      (''legend-certificate-secret'', ''LEGEND_CERT_ARN''),
      (''legend-gitlab-id-secret'', ''GITLAB_APP_ID''),
      (''legend-gitlab-secret'', ''GITLAB_APP_SECRET''),
      (''legend-grafana-secret'', ''GRAFANA_ADMIN_PASSWORD''),
      (''legend-docdb-secret'', ''DOCDB_PASSWORD''),
      (''legend-docdb-secret'', ''DOCDB_USERNAME'')]"
proof -
  have n: "map spc_name (spcNodes (platformGraph props)) =
     [''domain-spc'', ''cert-spc'', ''gitlab-id-spc'', ''gitlab-secret-spc'', ''grafana-spc'',
      ''docdb-spc'']"
    by (simp add: spcNodes_platformGraph [OF assms(1)] spcDef_def)
  have f: "filter (\<lambda>m. spc_name m \<in> set (mountList d)) (spcNodes (platformGraph props)) =
      spcNodes (platformGraph props)"
    unfolding filter_id_conv using n assms(2)
    by (metis (no_types, lifting) image_eqI list.set_map)
  have w: "jmesPath_of x None None None = [\<lparr>jm_path = ''.'', jm_objectAlias = x\<rparr>]" for x
    by (simp add: jmesPath_of_whole)
  show ?thesis
    unfolding mountedKeys_def f
    by (simp add: spcNodes_platformGraph [OF assms(1)] syncedKeys_spcDef w jmesPath_of_docdb)
qed

text \<open>
  C10. The built graph has seven Deployments. Each of them mounts all six bindings,
  as volumes that its container mounts one by one, and has the shared environment
  \<open>commonEnv\<close>. The keys of the certificate and of the Grafana binding are mounted into
  every Deployment, and no secret reference of its environment names them.
\<close>

theorem every_workload_mounts_all_bindings:
  assumes "docdb_secret (docdbCluster props) = Some s"
    and "d \<in> set (deploymentNodes (platformGraph props))"
  shows "length (deploymentNodes (platformGraph props)) = 7
    \<and> mountList d = map spc_name (spcNodes (platformGraph props))
    \<and> mountList d =
        [''domain-spc'', ''cert-spc'', ''gitlab-id-spc'', ''gitlab-secret-spc'',
         ''grafana-spc'', ''docdb-spc'']
    \<and> map vm_name (concat (map ct_volumeMounts (dp_containers d))) = map vol_name (dp_volumes d)
    \<and> envOf d = commonEnv (docdbCluster props)
    \<and> (''legend-certificate-secret'', ''LEGEND_CERT_ARN'') \<in> set (mountedKeys (platformGraph props) d)
    \<and> (''legend-grafana-secret'', ''GRAFANA_ADMIN_PASSWORD'') \<in> set (mountedKeys (platformGraph props) d)
    \<and> (''legend-certificate-secret'', ''LEGEND_CERT_ARN'') \<notin> set (secretRefs (envOf d))
    \<and> (''legend-grafana-secret'', ''GRAFANA_ADMIN_PASSWORD'') \<notin> set (secretRefs (envOf d))
    \<and> ''legend-certificate-secret'' \<notin> set (map fst (secretRefs (envOf d)))
    \<and> ''legend-grafana-secret'' \<notin> set (map fst (secretRefs (envOf d)))"
proof -
  note dn = deploymentNodes_platformGraph [OF assms(1)]
  from assms(2) have "d \<in> (\<lambda>cmp. makeDeployment ''legend'' (commonEnv (docdbCluster props))
           (comp_name cmp) (comp_image cmp) (comp_port cmp)) ` set components"
    unfolding dn by simp
  then obtain cmp :: component where d:
    "d = makeDeployment ''legend'' (commonEnv (docdbCluster props))
           (comp_name cmp) (comp_image cmp) (comp_port cmp)"
    by blast
  have len: "length (deploymentNodes (platformGraph props)) = 7"
    by (simp add: dn components_def)
  have ml: "mountList d =
        [''domain-spc'', ''cert-spc'', ''gitlab-id-spc'', ''gitlab-secret-spc'',
         ''grafana-spc'', ''docdb-spc'']"
    by (simp add: d mountList_makeDeployment)
  have n: "map spc_name (spcNodes (platformGraph props)) =
     [''domain-spc'', ''cert-spc'', ''gitlab-id-spc'', ''gitlab-secret-spc'', ''grafana-spc'',
      ''docdb-spc'']"
    by (simp add: spcNodes_platformGraph [OF assms(1)] spcDef_def)
  have vm: "map vm_name (concat (map ct_volumeMounts (dp_containers d))) =
      map vol_name (dp_volumes d)"
    unfolding d by (rule volumeMounts_makeDeployment)
  have env: "envOf d = commonEnv (docdbCluster props)"
    by (simp add: d envOf_makeDeployment)
  note mk = mountedKeys_platformGraph [OF assms(1) ml]
  have m1: "(''legend-certificate-secret'', ''LEGEND_CERT_ARN'')
      \<in> set (mountedKeys (platformGraph props) d)"
    by (simp add: mk)
  have m2: "(''legend-grafana-secret'', ''GRAFANA_ADMIN_PASSWORD'')
      \<in> set (mountedKeys (platformGraph props) d)"
    by (simp add: mk)
  have r1: "(''legend-certificate-secret'', ''LEGEND_CERT_ARN'') \<notin> set (secretRefs (envOf d))"
    by (simp add: env secretRefs_commonEnv)
  have r2: "(''legend-grafana-secret'', ''GRAFANA_ADMIN_PASSWORD'') \<notin> set (secretRefs (envOf d))"
    by (simp add: env secretRefs_commonEnv)
  have r3: "''legend-certificate-secret'' \<notin> set (map fst (secretRefs (envOf d)))"
    by (simp add: env secretRefs_commonEnv)
  have r4: "''legend-grafana-secret'' \<notin> set (map fst (secretRefs (envOf d)))"
    by (simp add: env secretRefs_commonEnv)
  from len ml n vm env m1 m2 r1 r2 r3 r4 show ?thesis by simp
qed

theorem every_workload_mounts_all_bindings_witness:
  "docdb_secret (docdbCluster sampleProps) = Some \<lparr>secretArn = ''arn:docdb''\<rparr>
   \<and> makeDeployment ''legend'' (commonEnv (docdbCluster sampleProps)) ''legend-studio''
        ''finos/legend-studio:latest'' 9000 \<in> set (deploymentNodes (platformGraph sampleProps))
   \<and> mountList (makeDeployment ''legend'' (commonEnv (docdbCluster sampleProps)) ''legend-studio''
        ''finos/legend-studio:latest'' 9000) =
        [''domain-spc'', ''cert-spc'', ''gitlab-id-spc'', ''gitlab-secret-spc'',
         ''grafana-spc'', ''docdb-spc'']
   \<and> (''legend-grafana-secret'', ''GRAFANA_ADMIN_PASSWORD'')
        \<in> set (mountedKeys (platformGraph sampleProps)
            (makeDeployment ''legend'' (commonEnv (docdbCluster sampleProps)) ''legend-studio''
               ''finos/legend-studio:latest'' 9000))
   \<and> ''legend-grafana-secret''
        \<notin> set (map fst (secretRefs (envOf
            (makeDeployment ''legend'' (commonEnv (docdbCluster sampleProps)) ''legend-studio''
               ''finos/legend-studio:latest'' 9000))))"
proof -
  have h: "docdb_secret (docdbCluster sampleProps) = Some \<lparr>secretArn = ''arn:docdb''\<rparr>"
    by (simp add: sampleProps_def)
  have m: "makeDeployment ''legend'' (commonEnv (docdbCluster sampleProps)) ''legend-studio''
        ''finos/legend-studio:latest'' 9000 \<in> set (deploymentNodes (platformGraph sampleProps))"
    by (simp add: deploymentNodes_platformGraph [OF h] components_def)
  from every_workload_mounts_all_bindings [OF h m] h m show ?thesis by blast
qed

section \<open>Literal and secret-backed environment variables\<close>

text \<open>
  C7, as the code has it. Every Deployment of the built graph has the eight variables
  of \<open>commonEnv\<close>. Five of them are resolved through a \<open>secretKeyRef\<close>:
  \<open>LEGEND_DOMAIN\<close>, \<open>GITLAB_APP_ID\<close>, \<open>GITLAB_APP_SECRET\<close>, \<open>DOCDB_USER\<close> and
  \<open>DOCDB_PASS\<close>. The other three carry literal values: \<open>DOCDB_HOST\<close> the host name of
  the database endpoint, \<open>DOCDB_PORT\<close> its port as a decimal string, and \<open>DOCDB_NAME\<close>
  the constant \<open>legend\<close>.
\<close>

theorem environment_of_every_workload:
  assumes "docdb_secret (docdbCluster props) = Some s"
    and "d \<in> set (deploymentNodes (platformGraph props))"
  shows "envOf d =
      [EnvSecretKeyRef ''LEGEND_DOMAIN'' ''legend-domain-secret'' ''LEGEND_DOMAIN'',
       EnvSecretKeyRef ''GITLAB_APP_ID'' ''legend-gitlab-id-secret'' ''GITLAB_APP_ID'',
       EnvSecretKeyRef ''GITLAB_APP_SECRET'' ''legend-gitlab-secret'' ''GITLAB_APP_SECRET'',
       EnvValue ''DOCDB_HOST'' (hostname (clusterEndpoint (docdbCluster props))),
       EnvValue ''DOCDB_PORT'' (toString (port (clusterEndpoint (docdbCluster props)))),
       EnvValue ''DOCDB_NAME'' ''legend'',
       EnvSecretKeyRef ''DOCDB_USER'' ''legend-docdb-secret'' ''DOCDB_USERNAME'',
       EnvSecretKeyRef ''DOCDB_PASS'' ''legend-docdb-secret'' ''DOCDB_PASSWORD'']
    \<and> literals (envOf d) =
      [(''DOCDB_HOST'', hostname (clusterEndpoint (docdbCluster props))),
       (''DOCDB_PORT'', toString (port (clusterEndpoint (docdbCluster props)))),
       (''DOCDB_NAME'', ''legend'')]
    \<and> length (secretRefs (envOf d)) = 5"
proof -
  from assms(2) have "d \<in> (\<lambda>cmp. makeDeployment ''legend'' (commonEnv (docdbCluster props))
           (comp_name cmp) (comp_image cmp) (comp_port cmp)) ` set components"
    unfolding deploymentNodes_platformGraph [OF assms(1)] by simp
  then obtain x :: component where d:
    "d = makeDeployment ''legend'' (commonEnv (docdbCluster props))
           (comp_name x) (comp_image x) (comp_port x)"
    by blast
  have env: "envOf d = commonEnv (docdbCluster props)"
    by (simp add: d envOf_makeDeployment)
  have a: "envOf d =
      [EnvSecretKeyRef ''LEGEND_DOMAIN'' ''legend-domain-secret'' ''LEGEND_DOMAIN'',
       EnvSecretKeyRef ''GITLAB_APP_ID'' ''legend-gitlab-id-secret'' ''GITLAB_APP_ID'',
       EnvSecretKeyRef ''GITLAB_APP_SECRET'' ''legend-gitlab-secret'' ''GITLAB_APP_SECRET'',
       EnvValue ''DOCDB_HOST'' (hostname (clusterEndpoint (docdbCluster props))),
       EnvValue ''DOCDB_PORT'' (toString (port (clusterEndpoint (docdbCluster props)))),
       EnvValue ''DOCDB_NAME'' ''legend'',
       EnvSecretKeyRef ''DOCDB_USER'' ''legend-docdb-secret'' ''DOCDB_USERNAME'',
       EnvSecretKeyRef ''DOCDB_PASS'' ''legend-docdb-secret'' ''DOCDB_PASSWORD'']"
    unfolding env by (simp add: commonEnv_def)
  have b: "literals (envOf d) =
      [(''DOCDB_HOST'', hostname (clusterEndpoint (docdbCluster props))),
       (''DOCDB_PORT'', toString (port (clusterEndpoint (docdbCluster props)))),
       (''DOCDB_NAME'', ''legend'')]"
    unfolding env by (rule literals_commonEnv)
  have c: "length (secretRefs (envOf d)) = 5"
    unfolding env by (simp add: secretRefs_commonEnv)
  from a b c show ?thesis by blast
qed

theorem environment_of_every_workload_witness:
  "docdb_secret (docdbCluster sampleProps) = Some \<lparr>secretArn = ''arn:docdb''\<rparr>
   \<and> makeDeployment ''legend'' (commonEnv (docdbCluster sampleProps)) ''legend-query''
        ''finos/legend-query:latest'' 9001 \<in> set (deploymentNodes (platformGraph sampleProps))
   \<and> literals (envOf (makeDeployment ''legend'' (commonEnv (docdbCluster sampleProps))
        ''legend-query'' ''finos/legend-query:latest'' 9001)) =
      [(''DOCDB_HOST'', ''docdb.example''), (''DOCDB_PORT'', ''27017''),
       (''DOCDB_NAME'', ''legend'')]
   \<and> length (secretRefs (envOf (makeDeployment ''legend'' (commonEnv (docdbCluster sampleProps))
        ''legend-query'' ''finos/legend-query:latest'' 9001))) = 5"
proof -
  have h: "docdb_secret (docdbCluster sampleProps) = Some \<lparr>secretArn = ''arn:docdb''\<rparr>"
    by (simp add: sampleProps_def)
  have m: "makeDeployment ''legend'' (commonEnv (docdbCluster sampleProps)) ''legend-query''
        ''finos/legend-query:latest'' 9001 \<in> set (deploymentNodes (platformGraph sampleProps))"
    by (simp add: deploymentNodes_platformGraph [OF h] components_def)
  have e: "hostname (clusterEndpoint (docdbCluster sampleProps)) = ''docdb.example''"
    by (simp add: sampleProps_def)
  have p: "toString (port (clusterEndpoint (docdbCluster sampleProps))) = ''27017''"
    by (simp add: sampleProps_def toString_def digit_char_def)
  from environment_of_every_workload [OF h m] h m e p show ?thesis by simp
qed

text \<open>
  C7 as the specification words it fails: the first Deployment of the graph built
  from the sample input, \<open>legend-engine\<close>, has three variables with literal values.
\<close>

theorem literal_environment_counterexample:
  "dp_name (hd (deploymentNodes (platformGraph sampleProps))) = ''legend-engine''
   \<and> envOf (hd (deploymentNodes (platformGraph sampleProps))) ! 5 =
       EnvValue ''DOCDB_NAME'' ''legend''
   \<and> literals (envOf (hd (deploymentNodes (platformGraph sampleProps)))) =
      [(''DOCDB_HOST'', ''docdb.example''), (''DOCDB_PORT'', ''27017''),
       (''DOCDB_NAME'', ''legend'')]"
proof -
  have h: "docdb_secret (docdbCluster sampleProps) = Some \<lparr>secretArn = ''arn:docdb''\<rparr>"
    by (simp add: sampleProps_def)
  have e: "hostname (clusterEndpoint (docdbCluster sampleProps)) = ''docdb.example''"
    by (simp add: sampleProps_def)
  have p: "toString (port (clusterEndpoint (docdbCluster sampleProps))) = ''27017''"
    by (simp add: sampleProps_def toString_def digit_char_def)
  have d: "hd (deploymentNodes (platformGraph sampleProps)) =
      makeDeployment ''legend'' (commonEnv (docdbCluster sampleProps)) ''legend-engine''
        ''finos/legend-engine-server:latest'' 6300"
    by (simp add: deploymentNodes_platformGraph [OF h] components_def)
  have a: "dp_name (hd (deploymentNodes (platformGraph sampleProps))) = ''legend-engine''"
    unfolding d by (simp add: makeDeployment_def)
  have b: "envOf (hd (deploymentNodes (platformGraph sampleProps))) ! 5 =
       EnvValue ''DOCDB_NAME'' ''legend''"
    unfolding d by (simp add: envOf_makeDeployment commonEnv_def)
  have c: "literals (envOf (hd (deploymentNodes (platformGraph sampleProps)))) =
      [(''DOCDB_HOST'', ''docdb.example''), (''DOCDB_PORT'', ''27017''),
       (''DOCDB_NAME'', ''legend'')]"
    unfolding d by (simp add: envOf_makeDeployment literals_commonEnv e p)
  from a b c show ?thesis by blast
qed

section \<open>The declared dependency edges\<close>

lemma manifests_platformGraph_ids:
  assumes "docdb_secret (docdbCluster props) = Some s"
  shows "map fst (manifests (platformGraph props)) =
    [''LegendNamespace'', ''SecretProviderClass-domain-spc'', ''SecretProviderClass-cert-spc'',
     ''SecretProviderClass-gitlab-id-spc'', ''SecretProviderClass-gitlab-secret-spc'',
     ''SecretProviderClass-grafana-spc'', ''SecretProviderClass-docdb-spc'',
     ''legend-engine-deploy'', ''legend-engine-svc'', ''legend-sdlc-deploy'', ''legend-sdlc-svc'',
     ''legend-studio-deploy'', ''legend-studio-svc'', ''legend-query-deploy'',
     ''legend-query-svc'', ''legend-pure-ide-deploy'', ''legend-pure-ide-svc'',
     ''legend-depot-deploy'', ''legend-depot-svc'', ''legend-depot-store-deploy'',
     ''legend-depot-store-svc'', ''LegendIngress'', ''LegendNetworkPolicy'']"
  by (simp add: manifests_platformGraph [OF assms]
      components_def)

lemma component_cases:
  assumes "cmp \<in> set components"
  obtains "comp_name cmp = ''legend-engine''" | "comp_name cmp = ''legend-sdlc''"
    | "comp_name cmp = ''legend-studio''" | "comp_name cmp = ''legend-query''"
    | "comp_name cmp = ''legend-pure-ide''" | "comp_name cmp = ''legend-depot''"
    | "comp_name cmp = ''legend-depot-store''"
  using assms unfolding components_def by auto

lemma dependsOn_deploy:
  assumes "docdb_secret (docdbCluster props) = Some s" and "cmp \<in> set components"
  shows "dependsOn (platformGraph props) (comp_name cmp @ ''-deploy'') =
    [''LegendNamespace'', ''SecretProviderClass-domain-spc'', ''SecretProviderClass-cert-spc'',
     ''SecretProviderClass-gitlab-id-spc'', ''SecretProviderClass-gitlab-secret-spc'',
     ''SecretProviderClass-grafana-spc'', ''SecretProviderClass-docdb-spc'']"
  using assms(2)
  by (rule component_cases)
    (simp_all add: dependsOn_def dependencies_platformGraph [OF assms(1)])

lemma dependsOn_svc:
  assumes "docdb_secret (docdbCluster props) = Some s" and "cmp \<in> set components"
  shows "dependsOn (platformGraph props) (comp_name cmp @ ''-svc'') = [comp_name cmp @ ''-deploy'']"
  using assms(2)
  by (rule component_cases)
    (simp_all add: dependsOn_def dependencies_platformGraph [OF assms(1)])

lemma dependsOn_networkPolicy:
  assumes "docdb_secret (docdbCluster props) = Some s"
  shows "dependsOn (platformGraph props) ''LegendNetworkPolicy'' = [''LegendIngress'']"
  by (simp add: dependsOn_def dependencies_platformGraph [OF assms(1)])

lemma map_of_deploy:
  assumes "docdb_secret (docdbCluster props) = Some s" and "cmp \<in> set components"
  shows "map_of (manifests (platformGraph props)) (comp_name cmp @ ''-deploy'') =
    Some (Deployment (makeDeployment ''legend'' (commonEnv (docdbCluster props))
       (comp_name cmp) (comp_image cmp) (comp_port cmp)))"
  using assms(2) unfolding components_def
  by (auto simp add: manifests_platformGraph [OF assms(1)]
      components_def)

lemma map_of_fixed_nodes:
  assumes "docdb_secret (docdbCluster props) = Some s"
  shows "map_of (manifests (platformGraph props)) ''LegendNamespace'' = Some (Namespace (namespaceManifest ''legend''))"
    and "map (\<lambda>n. map_option (\<lambda>m. map spc_name (spcOf m))
            (map_of (manifests (platformGraph props)) (''SecretProviderClass-'' @ n)))
          [''domain-spc'', ''cert-spc'', ''gitlab-id-spc'', ''gitlab-secret-spc'',
           ''grafana-spc'', ''docdb-spc''] =
         [Some [''domain-spc''], Some [''cert-spc''], Some [''gitlab-id-spc''],
          Some [''gitlab-secret-spc''], Some [''grafana-spc''], Some [''docdb-spc'']]"
  by (simp_all add: manifests_platformGraph [OF assms]
      spcDef_def)

text \<open>
  C1, as the code has it. In the built graph every workload Deployment is declared
  to depend on the namespace node and on the node of each of the six bindings, which
  are exactly the bindings it mounts, and on nothing else; every workload Service is
  declared to depend on its Deployment and on nothing else; the network-policy node is
  declared to depend on the ingress node and on nothing else.
\<close>

theorem declared_dependency_edges:
  assumes "docdb_secret (docdbCluster props) = Some s"
    and "cmp \<in> set components"
  shows "map_of (manifests (platformGraph props)) ''LegendNamespace'' = Some (Namespace (namespaceManifest ''legend''))
    \<and> map_of (manifests (platformGraph props)) (comp_name cmp @ ''-deploy'') =
        Some (Deployment (makeDeployment ''legend'' (commonEnv (docdbCluster props))
           (comp_name cmp) (comp_image cmp) (comp_port cmp)))
    \<and> dependsOn (platformGraph props) (comp_name cmp @ ''-deploy'') =
        ''LegendNamespace'' #
        map (\<lambda>n. ''SecretProviderClass-'' @ n)
          (mountList (makeDeployment ''legend'' (commonEnv (docdbCluster props))
             (comp_name cmp) (comp_image cmp) (comp_port cmp)))
    \<and> map (\<lambda>n. map_option (\<lambda>m. map spc_name (spcOf m))
            (map_of (manifests (platformGraph props)) (''SecretProviderClass-'' @ n)))
          (mountList (makeDeployment ''legend'' (commonEnv (docdbCluster props))
             (comp_name cmp) (comp_image cmp) (comp_port cmp))) =
        map (\<lambda>n. Some [n])
          (mountList (makeDeployment ''legend'' (commonEnv (docdbCluster props))
             (comp_name cmp) (comp_image cmp) (comp_port cmp)))
    \<and> dependsOn (platformGraph props) (comp_name cmp @ ''-svc'') = [comp_name cmp @ ''-deploy'']
    \<and> dependsOn (platformGraph props) ''LegendNetworkPolicy'' = [''LegendIngress'']"
proof -
  note f = map_of_fixed_nodes [OF assms(1)]
  have a: "dependsOn (platformGraph props) (comp_name cmp @ ''-deploy'') =
        ''LegendNamespace'' #
        map (\<lambda>n. ''SecretProviderClass-'' @ n)
          (mountList (makeDeployment ''legend'' (commonEnv (docdbCluster props))
             (comp_name cmp) (comp_image cmp) (comp_port cmp)))"
    by (simp add: dependsOn_deploy [OF assms] mountList_makeDeployment)
  have b: "map (\<lambda>n. map_option (\<lambda>m. map spc_name (spcOf m))
            (map_of (manifests (platformGraph props)) (''SecretProviderClass-'' @ n)))
          (mountList (makeDeployment ''legend'' (commonEnv (docdbCluster props))
             (comp_name cmp) (comp_image cmp) (comp_port cmp))) =
        map (\<lambda>n. Some [n])
          (mountList (makeDeployment ''legend'' (commonEnv (docdbCluster props))
             (comp_name cmp) (comp_image cmp) (comp_port cmp)))"
    unfolding mountList_makeDeployment f(2) by simp
  from f(1) map_of_deploy [OF assms] a b dependsOn_svc [OF assms]
    dependsOn_networkPolicy [OF assms(1)]
  show ?thesis by blast
qed

theorem declared_dependency_edges_witness:
  "docdb_secret (docdbCluster sampleProps) = Some \<lparr>secretArn = ''arn:docdb''\<rparr>
   \<and> \<lparr>comp_name = ''legend-sdlc'', comp_image = ''finos/legend-sdlc-server:latest'',
       comp_port = 6100\<rparr> \<in> set components
   \<and> dependsOn (platformGraph sampleProps) ''legend-sdlc-deploy'' =
       [''LegendNamespace'', ''SecretProviderClass-domain-spc'', ''SecretProviderClass-cert-spc'',
        ''SecretProviderClass-gitlab-id-spc'', ''SecretProviderClass-gitlab-secret-spc'',
        ''SecretProviderClass-grafana-spc'', ''SecretProviderClass-docdb-spc'']
   \<and> dependsOn (platformGraph sampleProps) ''legend-sdlc-svc'' = [''legend-sdlc-deploy'']
   \<and> dependsOn (platformGraph sampleProps) ''LegendNetworkPolicy'' = [''LegendIngress'']"
proof -
  have h: "docdb_secret (docdbCluster sampleProps) = Some \<lparr>secretArn = ''arn:docdb''\<rparr>"
    by (simp add: sampleProps_def)
  have m: "\<lparr>comp_name = ''legend-sdlc'', comp_image = ''finos/legend-sdlc-server:latest'',
       comp_port = 6100\<rparr> \<in> set components"
    by (simp add: components_def)
  from declared_dependency_edges [OF h m] h m
  show ?thesis by (simp add: mountList_makeDeployment)
qed

text \<open>
  C1 as the specification words it fails twice on the graph built from the sample
  input. The binding \<open>domain-spc\<close> is placed in the namespace \<open>legend\<close> and is declared
  to depend on nothing, so no edge puts the namespace node before it. And the edge
  from the Service \<open>legend-engine-svc\<close> to its Deployment is declared, although it is
  neither an edge to the namespace node, nor to a binding, nor the edge from the
  network policy to the ingress.
\<close>

theorem declared_edges_counterexample:
  "map_option manifestNamespace
      (map_of (manifests (platformGraph sampleProps)) ''SecretProviderClass-domain-spc'') =
     Some (Some ''legend'')
   \<and> dependsOn (platformGraph sampleProps) ''SecretProviderClass-domain-spc'' = []
   \<and> ''SecretProviderClass-domain-spc'' \<notin> set (map fst (dependencies (platformGraph sampleProps)))
   \<and> (''legend-engine-svc'', ''legend-engine-deploy'')
        \<in> set (dependencies (platformGraph sampleProps))
   \<and> map_option isWorkload
        (map_of (manifests (platformGraph sampleProps)) ''legend-engine-deploy'') = Some True
   \<and> map_option isWorkload
        (map_of (manifests (platformGraph sampleProps)) ''legend-engine-svc'') = Some True"
proof -
  have h: "docdb_secret (docdbCluster sampleProps) = Some \<lparr>secretArn = ''arn:docdb''\<rparr>"
    by (simp add: sampleProps_def)
  note m = manifests_platformGraph [OF h] and d = dependencies_platformGraph [OF h]
  have a: "map_option manifestNamespace
      (map_of (manifests (platformGraph sampleProps)) ''SecretProviderClass-domain-spc'') =
     Some (Some ''legend'')"
    by (simp add: m spcDef_def)
  have b: "dependsOn (platformGraph sampleProps) ''SecretProviderClass-domain-spc'' = []"
    by (simp add: dependsOn_def d)
  have c: "''SecretProviderClass-domain-spc''
      \<notin> set (map fst (dependencies (platformGraph sampleProps)))"
    by (simp add: d)
  have e: "(''legend-engine-svc'', ''legend-engine-deploy'')
        \<in> set (dependencies (platformGraph sampleProps))"
    by (simp add: d)
  have f: "map_option isWorkload
        (map_of (manifests (platformGraph sampleProps)) ''legend-engine-deploy'') = Some True"
    by (simp add: m components_def)
  have g: "map_option isWorkload
        (map_of (manifests (platformGraph sampleProps)) ''legend-engine-svc'') = Some True"
    by (simp add: m components_def)
  from a b c e f g show ?thesis by blast
qed

section \<open>A missing database credential is fatal\<close>

lemma LegendPlatform_again:
  "LegendPlatform props (platformGraph props) =
     (Inl (ConstructExists ''LegendNamespace''), platformGraph props)"
proof (cases "docdb_secret (docdbCluster props)")
  case None
  have "manifests (platformGraph props) = manifests (snd (LegendPlatform props emptyCluster))"
    by (simp add: platformGraph_def)
  then have "''LegendNamespace'' \<in> set (map fst (manifests (platformGraph props)))"
    by (simp add: LegendPlatform_throws_fresh [OF None] emptyCluster_def)
  then show ?thesis
    by (simp add: LegendPlatform_def addManifest_def andThen_def Let_def)
next
  case (Some s)
  have "''LegendNamespace'' \<in> set (map fst (manifests (platformGraph props)))"
    by (simp add: manifests_platformGraph [OF Some])
  then show ?thesis
    by (simp add: LegendPlatform_def addManifest_def andThen_def Let_def)
qed

text \<open>
  C6. If the DocumentDB cluster carries no master secret, the constructor throws,
  whatever the cluster holds: it adds neither the database binding nor any Deployment
  or Service, and declares no dependency edge. On a cluster that holds none of the six
  ids added before the check, what it throws is the error about the missing master
  secret, and by then it has declared just the namespace and the five bindings of the
  declared secrets. With a master secret, on a cluster that holds none of the ids of
  the platform, it returns normally and has added the whole graph, with the database
  binding and the fourteen workload manifests.
\<close>

theorem missing_master_secret_is_fatal:
  "(docdb_secret (docdbCluster props) = None \<longrightarrow>
      fst (LegendPlatform props c) \<noteq> Inr ()
      \<and> filter (\<lambda>n. isWorkload (snd n) \<or> fst n = ''SecretProviderClass-docdb-spc'')
           (manifests (snd (LegendPlatform props c))) =
         filter (\<lambda>n. isWorkload (snd n) \<or> fst n = ''SecretProviderClass-docdb-spc'')
           (manifests c)
      \<and> dependencies (snd (LegendPlatform props c)) = dependencies c
      \<and> (set (map fst (manifests c)) \<inter>
           set [''LegendNamespace'', ''SecretProviderClass-domain-spc'',
             ''SecretProviderClass-cert-spc'', ''SecretProviderClass-gitlab-id-spc'',
             ''SecretProviderClass-gitlab-secret-spc'', ''SecretProviderClass-grafana-spc''] = {}
          \<longrightarrow>
          fst (LegendPlatform props c) =
            Inl (Error
              ''DocumentDB cluster has no master secret. Make sure docdb is configured with generated credentials.'')
          \<and> map fst (manifests (snd (LegendPlatform props c))) =
              map fst (manifests c) @
              [''LegendNamespace'', ''SecretProviderClass-domain-spc'',
               ''SecretProviderClass-cert-spc'', ''SecretProviderClass-gitlab-id-spc'',
               ''SecretProviderClass-gitlab-secret-spc'', ''SecretProviderClass-grafana-spc'']))
   \<and> (docdb_secret (docdbCluster props) = Some s \<longrightarrow>
        set (map fst (manifests c)) \<inter>
          set [''LegendNamespace'', ''SecretProviderClass-domain-spc'',
            ''SecretProviderClass-cert-spc'', ''SecretProviderClass-gitlab-id-spc'',
            ''SecretProviderClass-gitlab-secret-spc'', ''SecretProviderClass-grafana-spc'',
            ''SecretProviderClass-docdb-spc'',
            ''legend-engine-deploy'', ''legend-engine-svc'', ''legend-sdlc-deploy'',
            ''legend-sdlc-svc'', ''legend-studio-deploy'', ''legend-studio-svc'',
            ''legend-query-deploy'', ''legend-query-svc'', ''legend-pure-ide-deploy'',
            ''legend-pure-ide-svc'', ''legend-depot-deploy'', ''legend-depot-svc'',
            ''legend-depot-store-deploy'', ''legend-depot-store-svc'', ''LegendIngress'',
            ''LegendNetworkPolicy''] = {} \<longrightarrow>
        fst (LegendPlatform props c) = Inr ()
        \<and> manifests (snd (LegendPlatform props c)) = manifests c @ manifests (platformGraph props)
        \<and> dependencies (snd (LegendPlatform props c)) =
            dependencies c @ dependencies (platformGraph props)
        \<and> map_of (manifests (platformGraph props)) ''SecretProviderClass-docdb-spc'' =
            Some (SecretProviderClass
              (spcDef ''docdb-spc'' ''legend'' (secretArn s) ''legend-docdb-secret''
                 (jmesPath_of ''DOCDB_PASSWORD'' (Some ''password'') (Some ''username'')
                    (Some ''DOCDB_USERNAME''))))
        \<and> length (filter (isWorkload \<circ> snd) (manifests (platformGraph props))) = 14)"
proof (intro conjI impI)
  assume none: "docdb_secret (docdbCluster props) = None"
  note t = LegendPlatform_throws_any [OF none, of c]
  show "fst (LegendPlatform props c) \<noteq> Inr ()"
    by (rule t(1))
  show "filter (\<lambda>n. isWorkload (snd n) \<or> fst n = ''SecretProviderClass-docdb-spc'')
           (manifests (snd (LegendPlatform props c))) =
         filter (\<lambda>n. isWorkload (snd n) \<or> fst n = ''SecretProviderClass-docdb-spc'')
           (manifests c)"
    by (rule t(2))
  show "dependencies (snd (LegendPlatform props c)) = dependencies c"
    by (rule t(3))
  assume fresh: "set (map fst (manifests c)) \<inter>
           set [''LegendNamespace'', ''SecretProviderClass-domain-spc'',
             ''SecretProviderClass-cert-spc'', ''SecretProviderClass-gitlab-id-spc'',
             ''SecretProviderClass-gitlab-secret-spc'', ''SecretProviderClass-grafana-spc''] = {}"
  note f = LegendPlatform_throws_fresh [OF none fresh]
  show "fst (LegendPlatform props c) =
            Inl (Error
              ''DocumentDB cluster has no master secret. Make sure docdb is configured with generated credentials.'')"
    by (simp add: f)
  show "map fst (manifests (snd (LegendPlatform props c))) =
              map fst (manifests c) @
              [''LegendNamespace'', ''SecretProviderClass-domain-spc'',
               ''SecretProviderClass-cert-spc'', ''SecretProviderClass-gitlab-id-spc'',
               ''SecretProviderClass-gitlab-secret-spc'', ''SecretProviderClass-grafana-spc'']"
    by (simp add: f)
next
  assume some: "docdb_secret (docdbCluster props) = Some s"
  show "map_of (manifests (platformGraph props)) ''SecretProviderClass-docdb-spc'' =
        Some (SecretProviderClass
          (spcDef ''docdb-spc'' ''legend'' (secretArn s) ''legend-docdb-secret''
             (jmesPath_of ''DOCDB_PASSWORD'' (Some ''password'') (Some ''username'')
                (Some ''DOCDB_USERNAME''))))"
    by (simp add: manifests_platformGraph [OF some])
  show "length (filter (isWorkload \<circ> snd) (manifests (platformGraph props))) = 14"
    by (simp add: manifests_platformGraph [OF some] components_def)
  assume fresh: "set (map fst (manifests c)) \<inter>
          set [''LegendNamespace'', ''SecretProviderClass-domain-spc'',
            ''SecretProviderClass-cert-spc'', ''SecretProviderClass-gitlab-id-spc'',
            ''SecretProviderClass-gitlab-secret-spc'', ''SecretProviderClass-grafana-spc'',
            ''SecretProviderClass-docdb-spc'',
            ''legend-engine-deploy'', ''legend-engine-svc'', ''legend-sdlc-deploy'',
            ''legend-sdlc-svc'', ''legend-studio-deploy'', ''legend-studio-svc'',
            ''legend-query-deploy'', ''legend-query-svc'', ''legend-pure-ide-deploy'',
            ''legend-pure-ide-svc'', ''legend-depot-deploy'', ''legend-depot-svc'',
            ''legend-depot-store-deploy'', ''legend-depot-store-svc'', ''LegendIngress'',
            ''LegendNetworkPolicy''] = {}"
  note f = LegendPlatform_fresh [OF some fresh]
  show "fst (LegendPlatform props c) = Inr ()"
    by (simp add: f)
  show "manifests (snd (LegendPlatform props c)) = manifests c @ manifests (platformGraph props)"
    by (simp add: f platformGraph_def)
  show "dependencies (snd (LegendPlatform props c)) =
            dependencies c @ dependencies (platformGraph props)"
    by (simp add: f platformGraph_def)
qed


theorem missing_master_secret_is_fatal_witness:
  "docdb_secret (docdbCluster propsWithoutMasterSecret) = None
   \<and> set (map fst (manifests
         \<lparr>manifests = [(''MonitoringNamespace'', Namespace (namespaceManifest ''monitoring''))],
          dependencies = []\<rparr>)) \<inter>
       set [''LegendNamespace'', ''SecretProviderClass-domain-spc'',
         ''SecretProviderClass-cert-spc'', ''SecretProviderClass-gitlab-id-spc'',
         ''SecretProviderClass-gitlab-secret-spc'', ''SecretProviderClass-grafana-spc''] = {}
   \<and> fst (LegendPlatform propsWithoutMasterSecret
         \<lparr>manifests = [(''MonitoringNamespace'', Namespace (namespaceManifest ''monitoring''))],
          dependencies = []\<rparr>) =
       Inl (Error
         ''DocumentDB cluster has no master secret. Make sure docdb is configured with generated credentials.'')
   \<and> map fst (manifests (snd (LegendPlatform propsWithoutMasterSecret
         \<lparr>manifests = [(''MonitoringNamespace'', Namespace (namespaceManifest ''monitoring''))],
          dependencies = []\<rparr>))) =
       [''MonitoringNamespace'', ''LegendNamespace'', ''SecretProviderClass-domain-spc'',
        ''SecretProviderClass-cert-spc'', ''SecretProviderClass-gitlab-id-spc'',
        ''SecretProviderClass-gitlab-secret-spc'', ''SecretProviderClass-grafana-spc'']
   \<and> docdb_secret (docdbCluster sampleProps) = Some \<lparr>secretArn = ''arn:docdb''\<rparr>
   \<and> set (map fst (manifests
         \<lparr>manifests = [(''MonitoringNamespace'', Namespace (namespaceManifest ''monitoring''))],
          dependencies = []\<rparr>)) \<inter>
       set [''LegendNamespace'', ''SecretProviderClass-domain-spc'',
         ''SecretProviderClass-cert-spc'', ''SecretProviderClass-gitlab-id-spc'',
         ''SecretProviderClass-gitlab-secret-spc'', ''SecretProviderClass-grafana-spc'',
         ''SecretProviderClass-docdb-spc'',
         ''legend-engine-deploy'', ''legend-engine-svc'', ''legend-sdlc-deploy'',
         ''legend-sdlc-svc'', ''legend-studio-deploy'', ''legend-studio-svc'',
         ''legend-query-deploy'', ''legend-query-svc'', ''legend-pure-ide-deploy'',
         ''legend-pure-ide-svc'', ''legend-depot-deploy'', ''legend-depot-svc'',
         ''legend-depot-store-deploy'', ''legend-depot-store-svc'', ''LegendIngress'',
         ''LegendNetworkPolicy''] = {}
   \<and> fst (LegendPlatform sampleProps
         \<lparr>manifests = [(''MonitoringNamespace'', Namespace (namespaceManifest ''monitoring''))],
          dependencies = []\<rparr>) = Inr ()
   \<and> manifests (snd (LegendPlatform sampleProps
         \<lparr>manifests = [(''MonitoringNamespace'', Namespace (namespaceManifest ''monitoring''))],
          dependencies = []\<rparr>)) =
       (''MonitoringNamespace'', Namespace (namespaceManifest ''monitoring'')) #
       manifests (platformGraph sampleProps)
   \<and> length (filter (isWorkload \<circ> snd) (manifests (platformGraph sampleProps))) = 14"
proof -
  let ?c = "\<lparr>manifests = [(''MonitoringNamespace'', Namespace (namespaceManifest ''monitoring''))],
          dependencies = []\<rparr>"
  have n: "docdb_secret (docdbCluster propsWithoutMasterSecret) = None"
    by (simp add: propsWithoutMasterSecret_def)
  have s: "docdb_secret (docdbCluster sampleProps) = Some \<lparr>secretArn = ''arn:docdb''\<rparr>"
    by (simp add: sampleProps_def)
  have f6: "set (map fst (manifests ?c)) \<inter>
       set [''LegendNamespace'', ''SecretProviderClass-domain-spc'',
         ''SecretProviderClass-cert-spc'', ''SecretProviderClass-gitlab-id-spc'',
         ''SecretProviderClass-gitlab-secret-spc'', ''SecretProviderClass-grafana-spc''] = {}"
    by simp
  have f23: "set (map fst (manifests ?c)) \<inter>
       set [''LegendNamespace'', ''SecretProviderClass-domain-spc'',
         ''SecretProviderClass-cert-spc'', ''SecretProviderClass-gitlab-id-spc'',
         ''SecretProviderClass-gitlab-secret-spc'', ''SecretProviderClass-grafana-spc'',
         ''SecretProviderClass-docdb-spc'',
         ''legend-engine-deploy'', ''legend-engine-svc'', ''legend-sdlc-deploy'',
         ''legend-sdlc-svc'', ''legend-studio-deploy'', ''legend-studio-svc'',
         ''legend-query-deploy'', ''legend-query-svc'', ''legend-pure-ide-deploy'',
         ''legend-pure-ide-svc'', ''legend-depot-deploy'', ''legend-depot-svc'',
         ''legend-depot-store-deploy'', ''legend-depot-store-svc'', ''LegendIngress'',
         ''LegendNetworkPolicy''] = {}"
    by simp
  have a: "fst (LegendPlatform propsWithoutMasterSecret ?c) =
       Inl (Error
         ''DocumentDB cluster has no master secret. Make sure docdb is configured with generated credentials.'')
     \<and> map fst (manifests (snd (LegendPlatform propsWithoutMasterSecret ?c))) =
       map fst (manifests ?c) @
       [''LegendNamespace'', ''SecretProviderClass-domain-spc'',
        ''SecretProviderClass-cert-spc'', ''SecretProviderClass-gitlab-id-spc'',
        ''SecretProviderClass-gitlab-secret-spc'', ''SecretProviderClass-grafana-spc'']"
    using missing_master_secret_is_fatal [of propsWithoutMasterSecret ?c] n f6 by blast
  have b: "fst (LegendPlatform sampleProps ?c) = Inr ()
     \<and> manifests (snd (LegendPlatform sampleProps ?c)) =
       manifests ?c @ manifests (platformGraph sampleProps)
     \<and> length (filter (isWorkload \<circ> snd) (manifests (platformGraph sampleProps))) = 14"
    using missing_master_secret_is_fatal [of sampleProps ?c "\<lparr>secretArn = ''arn:docdb''\<rparr>"] s f23
    by blast
  from a b n s f6 f23 show ?thesis by simp
qed

section \<open>The target keys of a binding\<close>






section \<open>Secret references and the mount list\<close>

text \<open>
  In the built graph every secret reference of the environment of every Deployment is
  a \<open>(secretName, key)\<close> pair that a binding of the Deployment's mount list provides.
  The environment and the mount list are the same for every input: the constructor
  takes neither from its props.
\<close>

lemma secret_references_are_mounted:
  assumes "docdb_secret (docdbCluster props) = Some s"
    and "d \<in> set (deploymentNodes (platformGraph props))"
  shows "set (secretRefs (envOf d)) \<subseteq> set (mountedKeys (platformGraph props) d)"
proof -
  from assms(2) have "d \<in> (\<lambda>cmp. makeDeployment ''legend'' (commonEnv (docdbCluster props))
           (comp_name cmp) (comp_image cmp) (comp_port cmp)) ` set components"
    unfolding deploymentNodes_platformGraph [OF assms(1)] by simp
  then obtain x :: component where d:
    "d = makeDeployment ''legend'' (commonEnv (docdbCluster props))
           (comp_name x) (comp_image x) (comp_port x)"
    by blast
  have ml: "mountList d =
        [''domain-spc'', ''cert-spc'', ''gitlab-id-spc'', ''gitlab-secret-spc'',
         ''grafana-spc'', ''docdb-spc'']"
    by (simp add: d mountList_makeDeployment)
  have env: "envOf d = commonEnv (docdbCluster props)"
    by (simp add: d envOf_makeDeployment)
  show ?thesis
    by (simp add: env secretRefs_commonEnv mountedKeys_platformGraph [OF assms(1) ml])
qed

end
